theory Spec2Isabelle
  imports Main "HOL-Library.Word"
begin

unbundle bit_operations_syntax

section \<open>The TSL2561 luminosity sensor driver (drivers/sensors/tsl2561/tsl2561.c)\<close>

text \<open>
  The driver is written for the LPC1343 (ARM Cortex-M3): \<open>unsigned long\<close>,
  \<open>unsigned int\<close>, \<open>int\<close> and \<open>uint32_t\<close> are 32 bits wide, so they are
  \<^typ>\<open>32 word\<close> here and \<open>+\<close>, \<open>-\<close>, \<open>*\<close> wrap around as in C.

  The header \<open>tsl2561.h\<close> is not among the sources. Every macro and enumerator
  the driver takes from it is a field of a record of constants that the functions
  take as their first argument; nothing is assumed about a value unless a theorem
  says so in a hypothesis.
\<close>

type_synonym u8 = "8 word"
type_synonym u16 = "16 word"
type_synonym u32 = "32 word"

subsection \<open>Constants of the missing header\<close>

text \<open>
  \<open>I2C_BUFSIZE\<close> (of the I2C driver), the device address and read bit, the bits
  of the command byte, the register numbers, the two control values, the
  enumerators of \<open>tsl2561IntegrationTime_t\<close> that the \<open>switch\<close> statements name,
  and the \<open>TSL2561_LUX_*\<close> macros. Macros are C integers; shift counts and the
  buffer size are natural numbers. The two packages (\<open>#ifdef TSL2561_PACKAGE_CS\<close>)
  run the same chain of comparisons over their own macros \<open>K1C\<close> \<dots> \<open>M8C\<close> or
  \<open>K1T\<close> \<dots> \<open>M8T\<close>; the fields \<open>K1\<close> \<dots> \<open>M8\<close> stand for whichever set the build
  selects.
\<close>

record tsl2561_h =
  I2C_BUFSIZE :: nat
  TSL2561_ADDRESS :: u32
  TSL2561_READBIT :: u32
  TSL2561_COMMAND_BIT :: u32
  TSL2561_WORD_BIT :: u32
  TSL2561_REGISTER_CONTROL :: u32
  TSL2561_REGISTER_TIMING :: u32
  TSL2561_REGISTER_CHAN0_LOW :: u32
  TSL2561_REGISTER_CHAN1_LOW :: u32
  TSL2561_CONTROL_POWERON :: u32
  TSL2561_CONTROL_POWEROFF :: u32
  TSL2561_LUX_LUXSCALE :: nat
  TSL2561_LUX_RATIOSCALE :: nat
  TSL2561_LUX_CHSCALE :: nat
  TSL2561_LUX_CHSCALE_TINT0 :: u32
  TSL2561_LUX_CHSCALE_TINT1 :: u32
  TSL2561_INTEGRATIONTIME_13MS :: u32
  TSL2561_INTEGRATIONTIME_101MS :: u32
  TSL2561_LUX_K1 :: u32
  TSL2561_LUX_B1 :: u32
  TSL2561_LUX_M1 :: u32
  TSL2561_LUX_K2 :: u32
  TSL2561_LUX_B2 :: u32
  TSL2561_LUX_M2 :: u32
  TSL2561_LUX_K3 :: u32
  TSL2561_LUX_B3 :: u32
  TSL2561_LUX_M3 :: u32
  TSL2561_LUX_K4 :: u32
  TSL2561_LUX_B4 :: u32
  TSL2561_LUX_M4 :: u32
  TSL2561_LUX_K5 :: u32
  TSL2561_LUX_B5 :: u32
  TSL2561_LUX_M5 :: u32
  TSL2561_LUX_K6 :: u32
  TSL2561_LUX_B6 :: u32
  TSL2561_LUX_M6 :: u32
  TSL2561_LUX_K7 :: u32
  TSL2561_LUX_B7 :: u32
  TSL2561_LUX_M7 :: u32
  TSL2561_LUX_K8 :: u32
  TSL2561_LUX_B8 :: u32
  TSL2561_LUX_M8 :: u32

text \<open>
  One instance of the constants, used to run the functions on concrete inputs: the
  register map, the command bits and the lux constants of the TAOS datasheet for
  the T, FN and CL package, the device address \<open>0x39 << 1\<close>, six-byte buffers, and
  the enumerators 13 ms = 0 and 101 ms = 1.
\<close>

definition tsl2561_T_package :: tsl2561_h where
  "tsl2561_T_package = \<lparr>
     I2C_BUFSIZE = 6,
     TSL2561_ADDRESS = 0x72,
     TSL2561_READBIT = 0x01,
     TSL2561_COMMAND_BIT = 0x80,
     TSL2561_WORD_BIT = 0x20,
     TSL2561_REGISTER_CONTROL = 0x00,
     TSL2561_REGISTER_TIMING = 0x01,
     TSL2561_REGISTER_CHAN0_LOW = 0x0C,
     TSL2561_REGISTER_CHAN1_LOW = 0x0E,
     TSL2561_CONTROL_POWERON = 0x03,
     TSL2561_CONTROL_POWEROFF = 0x00,
     TSL2561_LUX_LUXSCALE = 14,
     TSL2561_LUX_RATIOSCALE = 9,
     TSL2561_LUX_CHSCALE = 10,
     TSL2561_LUX_CHSCALE_TINT0 = 0x7517,
     TSL2561_LUX_CHSCALE_TINT1 = 0x0FE7,
     TSL2561_INTEGRATIONTIME_13MS = 0,
     TSL2561_INTEGRATIONTIME_101MS = 1,
     TSL2561_LUX_K1 = 0x0040, TSL2561_LUX_B1 = 0x01F2, TSL2561_LUX_M1 = 0x01BE,
     TSL2561_LUX_K2 = 0x0080, TSL2561_LUX_B2 = 0x0214, TSL2561_LUX_M2 = 0x02D1,
     TSL2561_LUX_K3 = 0x00C0, TSL2561_LUX_B3 = 0x023F, TSL2561_LUX_M3 = 0x037B,
     TSL2561_LUX_K4 = 0x0100, TSL2561_LUX_B4 = 0x0270, TSL2561_LUX_M4 = 0x03FE,
     TSL2561_LUX_K5 = 0x0138, TSL2561_LUX_B5 = 0x016F, TSL2561_LUX_M5 = 0x01FC,
     TSL2561_LUX_K6 = 0x019A, TSL2561_LUX_B6 = 0x00D2, TSL2561_LUX_M6 = 0x00FB,
     TSL2561_LUX_K7 = 0x029A, TSL2561_LUX_B7 = 0x0018, TSL2561_LUX_M7 = 0x0012,
     TSL2561_LUX_K8 = 0x029A, TSL2561_LUX_B8 = 0x0000, TSL2561_LUX_M8 = 0x0000 \<rparr>"

subsection \<open>Driver state\<close>

text \<open>
  Modelled from the spec: the enumeration \<open>tsl2561Error_t\<close> is declared in the
  missing header. The source names \<open>TSL2561_ERROR_OK\<close> and
  \<open>TSL2561_ERROR_I2CINIT\<close>; the spec's error taxonomy adds the failure of a single
  bus transfer. \<open>if (error)\<close> in the source is \<open>error \<noteq> TSL2561_ERROR_OK\<close>.
\<close>

datatype tsl2561Error_t =
  TSL2561_ERROR_OK | TSL2561_ERROR_I2CINIT | TSL2561_ERROR_BUSTRANSFER

text \<open>
  A history of the functions entered, in order. It is not program state: no
  function reads it. It makes "is called", "is not attempted" and "exactly once"
  statements about an execution.
\<close>

datatype tsl2561_call =
  CALL_Init | CALL_Enable | CALL_Disable
  | CALL_SetTiming u32 u32 | CALL_GetLuminosity
  | CALL_i2cInit | CALL_Write8 u8 u32 | CALL_Read16 u8 | CALL_systickDelay nat

text \<open>
  The three static variables of the driver, the state \<open>bus\<close> of the layer below
  (the I2C buffers and the bus engine), and the call history. The enumerations
  \<open>tsl2561IntegrationTime_t\<close> and \<open>tsl2561Gain_t\<close> are C integers.
\<close>

record 'b tsl2561_state =
  tsl2561Initialised :: bool
  tsl2561IntegrationTime :: u32
  tsl2561Gain :: u32
  bus :: 'b
  calls :: "tsl2561_call list"

subsection \<open>tsl2561CalculateLux\<close>

text \<open>
  Lines 285-299: the \<open>switch\<close> on the integration time, then
  \<open>if (!_tsl2561Gain) chScale = chScale << 4\<close>.
\<close>

definition lux_chScale :: "tsl2561_h \<Rightarrow> 'b tsl2561_state \<Rightarrow> u32" where
  "lux_chScale c st =
     (let chScale =
        (if tsl2561IntegrationTime st = TSL2561_INTEGRATIONTIME_13MS c
           then TSL2561_LUX_CHSCALE_TINT0 c
         else if tsl2561IntegrationTime st = TSL2561_INTEGRATIONTIME_101MS c
           then TSL2561_LUX_CHSCALE_TINT1 c
         else push_bit (TSL2561_LUX_CHSCALE c) 1)
      in if tsl2561Gain st = 0 then push_bit 4 chScale else chScale)"

text \<open>
  Lines 302-303: \<open>(ch * chScale) >> TSL2561_LUX_CHSCALE\<close>. The 16-bit argument is
  converted to \<open>unsigned long\<close> and the product wraps at 32 bits.
\<close>

definition lux_channel :: "tsl2561_h \<Rightarrow> 'b tsl2561_state \<Rightarrow> u16 \<Rightarrow> u32" where
  "lux_channel c st ch = drop_bit (TSL2561_LUX_CHSCALE c) (ucast ch * lux_chScale c st)"

text \<open>Lines 306-310: the ratio, zero when \<open>channel0\<close> is zero, and its rounding.\<close>

definition lux_ratio :: "tsl2561_h \<Rightarrow> u32 \<Rightarrow> u32 \<Rightarrow> u32" where
  "lux_ratio c channel0 channel1 =
     (let ratio1 =
        (if channel0 \<noteq> 0
           then push_bit (TSL2561_LUX_RATIOSCALE c + 1) channel1 div channel0
         else 0)
      in drop_bit 1 (ratio1 + 1))"

text \<open>
  Lines 312-348: the chain that assigns \<open>b\<close> and \<open>m\<close>. The result carries the
  number of the branch taken with the two coefficients. When no branch is taken
  the C variables stay uninitialised: \<open>None\<close>.
\<close>

definition lux_coefficients :: "tsl2561_h \<Rightarrow> u32 \<Rightarrow> (nat \<times> u32 \<times> u32) option" where
  "lux_coefficients c ratio =
     (if ratio \<ge> 0 \<and> ratio \<le> TSL2561_LUX_K1 c
        then Some (1, TSL2561_LUX_B1 c, TSL2561_LUX_M1 c)
      else if ratio \<le> TSL2561_LUX_K2 c
        then Some (2, TSL2561_LUX_B2 c, TSL2561_LUX_M2 c)
      else if ratio \<le> TSL2561_LUX_K3 c
        then Some (3, TSL2561_LUX_B3 c, TSL2561_LUX_M3 c)
      else if ratio \<le> TSL2561_LUX_K4 c
        then Some (4, TSL2561_LUX_B4 c, TSL2561_LUX_M4 c)
      else if ratio \<le> TSL2561_LUX_K5 c
        then Some (5, TSL2561_LUX_B5 c, TSL2561_LUX_M5 c)
      else if ratio \<le> TSL2561_LUX_K6 c
        then Some (6, TSL2561_LUX_B6 c, TSL2561_LUX_M6 c)
      else if ratio \<le> TSL2561_LUX_K7 c
        then Some (7, TSL2561_LUX_B7 c, TSL2561_LUX_M7 c)
      else if ratio > TSL2561_LUX_K8 c
        then Some (8, TSL2561_LUX_B8 c, TSL2561_LUX_M8 c)
      else None)"

text \<open>
  Lines 350-360: \<open>temp\<close> is an \<open>unsigned long\<close>, so the subtraction wraps and
  \<open>temp < 0\<close> compares unsigned values.
\<close>

definition lux_round :: "tsl2561_h \<Rightarrow> u32 \<Rightarrow> u32 \<Rightarrow> u32 \<Rightarrow> u32 \<Rightarrow> u32" where
  "lux_round c channel0 channel1 b m =
     (let temp = channel0 * b - channel1 * m;
          temp = (if temp < 0 then 0 else temp);
          temp = temp + push_bit (TSL2561_LUX_LUXSCALE c - 1) 1
      in drop_bit (TSL2561_LUX_LUXSCALE c) temp)"

text \<open>
  The function. It reads the integration time and the gain from the static
  variables. \<open>None\<close>: the result is computed from uninitialised coefficients.
\<close>

definition tsl2561CalculateLux ::
  "tsl2561_h \<Rightarrow> 'b tsl2561_state \<Rightarrow> u16 \<Rightarrow> u16 \<Rightarrow> u32 option" where
  "tsl2561CalculateLux c st ch0 ch1 =
     (let channel0 = lux_channel c st ch0;
          channel1 = lux_channel c st ch1;
          ratio = lux_ratio c channel0 channel1
      in case lux_coefficients c ratio of
           None \<Rightarrow> None
         | Some (n, b, m) \<Rightarrow> Some (lux_round c channel0 channel1 b m))"


subsection \<open>The I2C buffers and the external bus engine\<close>

text \<open>
  The \<open>extern\<close> buffers and lengths of the I2C driver and the global counter
  \<open>i\<close> of this file (\<open>i_counter\<close>; a natural number, as \<open>I2C_BUFSIZE\<close> is). The
  last five fields are the world outside the driver: \<open>engine_outcomes s n\<close> is
  what call number \<open>n\<close> of the bus engine does (whether the transfer succeeds, and
  the bytes it leaves in the receive buffer), \<open>i2cInit_outcomes s n\<close> is the
  result of call number \<open>n\<close> of \<open>i2cInit\<close>, and \<open>elapsed_ms\<close> sums the delays.
\<close>

record i2c_state =
  I2CMasterBuffer :: "u8 list"
  I2CSlaveBuffer :: "u8 list"
  I2CReadLength :: u32
  I2CWriteLength :: u32
  i_counter :: nat
  engine_outcomes :: "nat \<Rightarrow> bool \<times> (nat \<Rightarrow> u8)"
  engine_calls :: nat
  i2cInit_outcomes :: "nat \<Rightarrow> bool"
  i2cInit_calls :: nat
  elapsed_ms :: nat

text \<open>
  Modelled from the spec: \<open>i2cEngine\<close>, the bus engine, is an external
  collaborator whose code is not among the sources. It performs the transfer
  described by the transmit buffer and the two lengths, blocks until the transfer
  completes or fails, and leaves the response in the receive buffer.
\<close>

definition i2cEngine :: "i2c_state \<Rightarrow> bool \<times> i2c_state" where
  "i2cEngine s =
     (let (ok, rx) = engine_outcomes s (engine_calls s)
      in (ok, s\<lparr>I2CSlaveBuffer := map rx [0..<length (I2CSlaveBuffer s)],
                engine_calls := engine_calls s + 1\<rparr>))"

text \<open>
  Modelled from the spec: \<open>i2cInit\<close>, not among the sources, brings the bus up
  and returns whether it could.
\<close>

definition i2cInit :: "i2c_state \<Rightarrow> bool \<times> i2c_state" where
  "i2cInit s = (i2cInit_outcomes s (i2cInit_calls s), s\<lparr>i2cInit_calls := i2cInit_calls s + 1\<rparr>)"

text \<open>
  Modelled from the spec: \<open>systickDelay\<close>, not among the sources, is a blocking
  wait of the given number of milliseconds.
\<close>

definition systickDelay :: "nat \<Rightarrow> i2c_state \<Rightarrow> i2c_state" where
  "systickDelay ms s = s\<lparr>elapsed_ms := elapsed_ms s + ms\<rparr>"

subsection \<open>Bus transaction layer: tsl2561WriteCmd, tsl2561Write8, tsl2561Read16\<close>

text \<open>
  \<open>for (i = 0; i < I2C_BUFSIZE; i++) I2CMasterBuffer[i] = 0x00;\<close> The result is the
  final value of \<open>i\<close> and the buffer.
\<close>

function clear_write_buffer :: "nat \<Rightarrow> nat \<Rightarrow> u8 list \<Rightarrow> nat \<times> u8 list" where
  "clear_write_buffer i n buf =
     (if i < n then clear_write_buffer (i + 1) n (buf[i := 0x00]) else (i, buf))"
  by pat_completeness auto
termination
  by (relation "measure (\<lambda>(i, n, buf). n - i)") auto

declare clear_write_buffer.simps [simp del]

definition clear_buffers :: "tsl2561_h \<Rightarrow> i2c_state \<Rightarrow> i2c_state" where
  "clear_buffers c s =
     (let (i, buf) = clear_write_buffer 0 (I2C_BUFSIZE c) (I2CMasterBuffer s)
      in s\<lparr>i_counter := i, I2CMasterBuffer := buf\<rparr>)"

text \<open>The result of \<open>i2cEngine()\<close> is not used by any of the three functions.\<close>

definition tsl2561WriteCmd :: "tsl2561_h \<Rightarrow> u8 \<Rightarrow> i2c_state \<Rightarrow> tsl2561Error_t \<times> i2c_state" where
  "tsl2561WriteCmd c cmd s =
     (let s = clear_buffers c s;
          s = s\<lparr>I2CWriteLength := 2\<rparr>;
          s = s\<lparr>I2CReadLength := 0\<rparr>;
          s = s\<lparr>I2CMasterBuffer := (I2CMasterBuffer s)[0 := ucast (TSL2561_ADDRESS c)]\<rparr>;
          s = s\<lparr>I2CMasterBuffer := (I2CMasterBuffer s)[1 := cmd]\<rparr>;
          (ok, s) = i2cEngine s
      in (TSL2561_ERROR_OK, s))"

definition tsl2561Write8 :: "tsl2561_h \<Rightarrow> u8 \<Rightarrow> u32 \<Rightarrow> i2c_state \<Rightarrow> tsl2561Error_t \<times> i2c_state" where
  "tsl2561Write8 c reg val s =
     (let s = clear_buffers c s;
          s = s\<lparr>I2CWriteLength := 3\<rparr>;
          s = s\<lparr>I2CReadLength := 0\<rparr>;
          s = s\<lparr>I2CMasterBuffer := (I2CMasterBuffer s)[0 := ucast (TSL2561_ADDRESS c)]\<rparr>;
          s = s\<lparr>I2CMasterBuffer := (I2CMasterBuffer s)[1 := reg]\<rparr>;
          s = s\<lparr>I2CMasterBuffer := (I2CMasterBuffer s)[2 := ucast (val AND 0xFF)]\<rparr>;
          (ok, s) = i2cEngine s
      in (TSL2561_ERROR_OK, s))"

text \<open>
  \<open>*value = (I2CSlaveBuffer[0] | (I2CSlaveBuffer[1] << 8))\<close>: the bytes are promoted
  to \<open>int\<close> and the result is converted to \<open>uint16_t\<close>. The function returns the
  error code with the new content of \<open>*value\<close>.
\<close>

definition tsl2561Read16 ::
  "tsl2561_h \<Rightarrow> u8 \<Rightarrow> i2c_state \<Rightarrow> (tsl2561Error_t \<times> u16) \<times> i2c_state" where
  "tsl2561Read16 c reg s =
     (let s = clear_buffers c s;
          s = s\<lparr>I2CWriteLength := 2\<rparr>;
          s = s\<lparr>I2CReadLength := 2\<rparr>;
          s = s\<lparr>I2CMasterBuffer := (I2CMasterBuffer s)[0 := ucast (TSL2561_ADDRESS c)]\<rparr>;
          s = s\<lparr>I2CMasterBuffer := (I2CMasterBuffer s)[1 := reg]\<rparr>;
          s = s\<lparr>I2CMasterBuffer :=
                (I2CMasterBuffer s)[2 := ucast (TSL2561_ADDRESS c OR TSL2561_READBIT c)]\<rparr>;
          (ok, s) = i2cEngine s;
          v = (ucast (I2CSlaveBuffer s ! 0) :: u32) OR push_bit 8 (ucast (I2CSlaveBuffer s ! 1))
      in ((TSL2561_ERROR_OK, ucast v), s))"

subsection \<open>The layer below the driver, as the driver sees it\<close>

text \<open>
  The functions of the driver above the bus transaction layer call
  \<open>tsl2561Write8\<close>, \<open>tsl2561Read16\<close>, \<open>i2cInit\<close> and \<open>systickDelay\<close> and look at
  nothing but the error code, the flag or the value that comes back. They are
  written over a record of these four operations on a bus state \<open>'b\<close>, so that
  what they do when a step returns an error can be stated and run.
  \<open>bus_Read16 reg old\<close> gets the old content of the cell \<open>*value\<close> and returns the
  new one with the error code. \<open>tsl2561_i2c_bus\<close> is the layer of this file; the
  argument \<open>I2CMASTER\<close> of \<open>i2cInit\<close> is a constant and is left out.
\<close>

record 'b tsl2561_bus =
  bus_Write8 :: "u8 \<Rightarrow> u32 \<Rightarrow> 'b \<Rightarrow> tsl2561Error_t \<times> 'b"
  bus_Read16 :: "u8 \<Rightarrow> u16 \<Rightarrow> 'b \<Rightarrow> (tsl2561Error_t \<times> u16) \<times> 'b"
  bus_i2cInit :: "'b \<Rightarrow> bool \<times> 'b"
  bus_systickDelay :: "nat \<Rightarrow> 'b \<Rightarrow> 'b"


text \<open>
  A simulated layer: every write or read takes the next scripted result (an error
  code, and for a read the word it delivers); a read that fails leaves the cell as
  it was. \<open>i2cInit\<close> returns a fixed flag.
\<close>

definition simulated_bus :: "bool \<Rightarrow> ((tsl2561Error_t \<times> u16) list) tsl2561_bus" where
  "simulated_bus up =
     \<lparr> bus_Write8 = (\<lambda>reg val s. case s of [] \<Rightarrow> (TSL2561_ERROR_OK, []) | (e, x) # s' \<Rightarrow> (e, s')),
       bus_Read16 = (\<lambda>reg old s. case s of [] \<Rightarrow> ((TSL2561_ERROR_OK, old), [])
                      | (e, x) # s' \<Rightarrow> ((e, if e = TSL2561_ERROR_OK then x else old), s')),
       bus_i2cInit = (\<lambda>s. (up, s)),
       bus_systickDelay = (\<lambda>ms s. s) \<rparr>"

text \<open>The calls into the layer below, each entered in the history.\<close>

definition log_call :: "tsl2561_call \<Rightarrow> 'b tsl2561_state \<Rightarrow> 'b tsl2561_state" where
  "log_call e st = st\<lparr>calls := calls st @ [e]\<rparr>"

definition call_Write8 ::
  "'b tsl2561_bus \<Rightarrow> u8 \<Rightarrow> u32 \<Rightarrow> 'b tsl2561_state \<Rightarrow> tsl2561Error_t \<times> 'b tsl2561_state" where
  "call_Write8 ops reg val st =
     (let st = log_call (CALL_Write8 reg val) st;
          (error, b) = bus_Write8 ops reg val (bus st)
      in (error, st\<lparr>bus := b\<rparr>))"

definition call_Read16 ::
  "'b tsl2561_bus \<Rightarrow> u8 \<Rightarrow> u16 \<Rightarrow> 'b tsl2561_state
     \<Rightarrow> tsl2561Error_t \<times> u16 \<times> 'b tsl2561_state" where
  "call_Read16 ops reg old st =
     (let st = log_call (CALL_Read16 reg) st;
          ((error, v), b) = bus_Read16 ops reg old (bus st)
      in (error, v, st\<lparr>bus := b\<rparr>))"

definition call_i2cInit :: "'b tsl2561_bus \<Rightarrow> 'b tsl2561_state \<Rightarrow> bool \<times> 'b tsl2561_state" where
  "call_i2cInit ops st =
     (let st = log_call CALL_i2cInit st;
          (ok, b) = bus_i2cInit ops (bus st)
      in (ok, st\<lparr>bus := b\<rparr>))"

definition call_systickDelay :: "'b tsl2561_bus \<Rightarrow> nat \<Rightarrow> 'b tsl2561_state \<Rightarrow> 'b tsl2561_state" where
  "call_systickDelay ops ms st =
     (let st = log_call (CALL_systickDelay ms) st
      in st\<lparr>bus := bus_systickDelay ops ms (bus st)\<rparr>)"


subsection \<open>Device state manager: tsl2561Enable, tsl2561Disable, tsl2561Init, tsl2561SetTiming\<close>

text \<open>
  \<open>tsl2561Init\<close> calls \<open>tsl2561SetTiming\<close>, which calls \<open>tsl2561Init\<close> when the
  driver is not initialised, as \<open>tsl2561Enable\<close>, \<open>tsl2561Disable\<close> and
  \<open>tsl2561GetLuminosity\<close> do. The recursion stops because \<open>tsl2561Init\<close> sets the
  flag before it calls \<open>tsl2561SetTiming\<close>. The functions are therefore written
  first over the function \<open>init\<close> that their first line may call
  (\<open>\<dots>_from init\<close>); \<open>tsl2561Init\<close> runs \<open>tsl2561SetTiming\<close> with the flag set, where
  that line does nothing; and the functions of the driver are the \<open>\<dots>_from\<close>
  functions over \<open>tsl2561Init\<close>. The lemmas \<open>tsl2561Init_eq\<close>, \<open>tsl2561Enable_eq\<close>,
  \<open>tsl2561Disable_eq\<close>, \<open>tsl2561SetTiming_eq\<close> and \<open>tsl2561GetLuminosity_eq\<close> below
  are the bodies of the source, each in terms of the others.
\<close>

type_synonym 'b tsl2561_fn = "'b tsl2561_state \<Rightarrow> tsl2561Error_t \<times> 'b tsl2561_state"

text \<open>\<open>if (!_tsl2561Initialised) tsl2561Init();\<close> The result of the call is dropped.\<close>

definition init_if_needed :: "'b tsl2561_fn \<Rightarrow> 'b tsl2561_state \<Rightarrow> 'b tsl2561_state" where
  "init_if_needed init st = (if \<not> tsl2561Initialised st then snd (init st) else st)"

definition tsl2561Enable_from ::
  "'b tsl2561_fn \<Rightarrow> tsl2561_h \<Rightarrow> 'b tsl2561_bus \<Rightarrow> 'b tsl2561_fn" where
  "tsl2561Enable_from init c ops st =
     (let st = log_call CALL_Enable st;
          st = init_if_needed init st
      in call_Write8 ops (ucast (TSL2561_COMMAND_BIT c OR TSL2561_REGISTER_CONTROL c))
           (TSL2561_CONTROL_POWERON c) st)"

definition tsl2561Disable_from ::
  "'b tsl2561_fn \<Rightarrow> tsl2561_h \<Rightarrow> 'b tsl2561_bus \<Rightarrow> 'b tsl2561_fn" where
  "tsl2561Disable_from init c ops st =
     (let st = log_call CALL_Disable st;
          st = init_if_needed init st
      in call_Write8 ops (ucast (TSL2561_COMMAND_BIT c OR TSL2561_REGISTER_CONTROL c))
           (TSL2561_CONTROL_POWEROFF c) st)"

definition tsl2561SetTiming_from ::
  "'b tsl2561_fn \<Rightarrow> tsl2561_h \<Rightarrow> 'b tsl2561_bus \<Rightarrow> u32 \<Rightarrow> u32 \<Rightarrow> 'b tsl2561_fn" where
  "tsl2561SetTiming_from init c ops integration gain st =
     (let st = log_call (CALL_SetTiming integration gain) st;
          st = init_if_needed init st;
          (error, st) = tsl2561Enable_from init c ops st
      in if error \<noteq> TSL2561_ERROR_OK then (error, st)
         else
           let (error, st) =
                 call_Write8 ops (ucast (TSL2561_COMMAND_BIT c OR TSL2561_REGISTER_TIMING c))
                   (integration OR gain) st
           in if error \<noteq> TSL2561_ERROR_OK then (error, st)
              else
                let st = st\<lparr>tsl2561IntegrationTime := integration\<rparr>;
                    st = st\<lparr>tsl2561Gain := gain\<rparr>;
                    (error, st) = tsl2561Disable_from init c ops st
                in if error \<noteq> TSL2561_ERROR_OK then (error, st) else (error, st))"

text \<open>
  What \<open>init\<close> stands for inside \<open>tsl2561Init\<close>, where the flag is set and the call
  is never made (\<open>tsl2561Init_eq\<close>).
\<close>

definition init_not_entered :: "'b tsl2561_fn" where
  "init_not_entered st = (TSL2561_ERROR_OK, st)"

definition tsl2561Init :: "tsl2561_h \<Rightarrow> 'b tsl2561_bus \<Rightarrow> 'b tsl2561_fn" where
  "tsl2561Init c ops st =
     (let st = log_call CALL_Init st;
          (ok, st) = call_i2cInit ops st
      in if ok = False then (TSL2561_ERROR_I2CINIT, st)
         else
           let st = st\<lparr>tsl2561Initialised := True\<rparr>;
               (error, st) = tsl2561SetTiming_from init_not_entered c ops
                               (tsl2561IntegrationTime st) (tsl2561Gain st) st
           in (TSL2561_ERROR_OK, st))"

definition tsl2561Enable :: "tsl2561_h \<Rightarrow> 'b tsl2561_bus \<Rightarrow> 'b tsl2561_fn" where
  "tsl2561Enable c ops = tsl2561Enable_from (tsl2561Init c ops) c ops"

definition tsl2561Disable :: "tsl2561_h \<Rightarrow> 'b tsl2561_bus \<Rightarrow> 'b tsl2561_fn" where
  "tsl2561Disable c ops = tsl2561Disable_from (tsl2561Init c ops) c ops"

definition tsl2561SetTiming :: "tsl2561_h \<Rightarrow> 'b tsl2561_bus \<Rightarrow> u32 \<Rightarrow> u32 \<Rightarrow> 'b tsl2561_fn" where
  "tsl2561SetTiming c ops = tsl2561SetTiming_from (tsl2561Init c ops) c ops"

subsection \<open>Acquisition sequencer: tsl2561GetLuminosity\<close>

text \<open>
  The arguments \<open>broadband\<close> and \<open>ir\<close> are the contents of the two cells the caller
  passes by address; the result holds what the cells contain when the function
  returns.
\<close>

definition tsl2561GetLuminosity_from ::
  "'b tsl2561_fn \<Rightarrow> tsl2561_h \<Rightarrow> 'b tsl2561_bus \<Rightarrow> u16 \<Rightarrow> u16 \<Rightarrow> 'b tsl2561_state
     \<Rightarrow> tsl2561Error_t \<times> (u16 \<times> u16) \<times> 'b tsl2561_state" where
  "tsl2561GetLuminosity_from init c ops broadband ir st =
     (let st = log_call CALL_GetLuminosity st;
          st = init_if_needed init st;
          (error, st) = tsl2561Enable_from init c ops st
      in if error \<noteq> TSL2561_ERROR_OK then (error, (broadband, ir), st)
         else
           let st = (if tsl2561IntegrationTime st = TSL2561_INTEGRATIONTIME_13MS c
                       then call_systickDelay ops 14 st
                     else if tsl2561IntegrationTime st = TSL2561_INTEGRATIONTIME_101MS c
                       then call_systickDelay ops 102 st
                     else call_systickDelay ops 400 st);
               (error, broadband, st) =
                 call_Read16 ops
                   (ucast (TSL2561_COMMAND_BIT c OR TSL2561_WORD_BIT c OR TSL2561_REGISTER_CHAN0_LOW c))
                   broadband st
           in if error \<noteq> TSL2561_ERROR_OK then (error, (broadband, ir), st)
              else
                let (error, ir, st) =
                      call_Read16 ops
                        (ucast (TSL2561_COMMAND_BIT c OR TSL2561_WORD_BIT c OR TSL2561_REGISTER_CHAN1_LOW c))
                        ir st
                in if error \<noteq> TSL2561_ERROR_OK then (error, (broadband, ir), st)
                   else
                     let (error, st) = tsl2561Disable_from init c ops st
                     in if error \<noteq> TSL2561_ERROR_OK then (error, (broadband, ir), st)
                        else (error, (broadband, ir), st))"

definition tsl2561GetLuminosity ::
  "tsl2561_h \<Rightarrow> 'b tsl2561_bus \<Rightarrow> u16 \<Rightarrow> u16 \<Rightarrow> 'b tsl2561_state
     \<Rightarrow> tsl2561Error_t \<times> (u16 \<times> u16) \<times> 'b tsl2561_state" where
  "tsl2561GetLuminosity c ops = tsl2561GetLuminosity_from (tsl2561Init c ops) c ops"


subsection \<open>The breakpoint table in the words of the specification\<close>

text \<open>
  The calibration curve as the specification describes it: eight breakpoints
  (number, threshold, B, M); the coefficients are those of the first breakpoint
  among the seven finite ones whose threshold is at least the ratio, and those of
  the last, catch-all entry when there is none.
\<close>

definition lux_table :: "tsl2561_h \<Rightarrow> (nat \<times> u32 \<times> u32 \<times> u32) list" where
  "lux_table c =
     [(1, TSL2561_LUX_K1 c, TSL2561_LUX_B1 c, TSL2561_LUX_M1 c),
      (2, TSL2561_LUX_K2 c, TSL2561_LUX_B2 c, TSL2561_LUX_M2 c),
      (3, TSL2561_LUX_K3 c, TSL2561_LUX_B3 c, TSL2561_LUX_M3 c),
      (4, TSL2561_LUX_K4 c, TSL2561_LUX_B4 c, TSL2561_LUX_M4 c),
      (5, TSL2561_LUX_K5 c, TSL2561_LUX_B5 c, TSL2561_LUX_M5 c),
      (6, TSL2561_LUX_K6 c, TSL2561_LUX_B6 c, TSL2561_LUX_M6 c),
      (7, TSL2561_LUX_K7 c, TSL2561_LUX_B7 c, TSL2561_LUX_M7 c),
      (8, TSL2561_LUX_K8 c, TSL2561_LUX_B8 c, TSL2561_LUX_M8 c)]"

definition spec_breakpoint :: "tsl2561_h \<Rightarrow> u32 \<Rightarrow> nat \<times> u32 \<times> u32" where
  "spec_breakpoint c ratio =
     (case find (\<lambda>(n, k, b, m). ratio \<le> k) (butlast (lux_table c)) of
        Some (n, k, b, m) \<Rightarrow> (n, b, m)
      | None \<Rightarrow> (case last (lux_table c) of (n, k, b, m) \<Rightarrow> (n, b, m)))"

subsection \<open>Sample states\<close>

text \<open>
  States on which the functions are run: a driver state with a given integration
  time and gain and no bus below it; a driver state over the simulated layer; and
  an I2C state of six-byte buffers whose engine fails every transfer.
\<close>

definition lux_state :: "u32 \<Rightarrow> u32 \<Rightarrow> unit tsl2561_state" where
  "lux_state integration gain =
     \<lparr> tsl2561Initialised = True, tsl2561IntegrationTime = integration,
       tsl2561Gain = gain, bus = (), calls = [] \<rparr>"

definition sim_state ::
  "bool \<Rightarrow> (tsl2561Error_t \<times> u16) list \<Rightarrow> ((tsl2561Error_t \<times> u16) list) tsl2561_state" where
  "sim_state initialised script =
     \<lparr> tsl2561Initialised = initialised, tsl2561IntegrationTime = 2,
       tsl2561Gain = 0, bus = script, calls = [] \<rparr>"

definition i2c_failing :: i2c_state where
  "i2c_failing =
     \<lparr> I2CMasterBuffer = [0, 0, 0, 0, 0, 0], I2CSlaveBuffer = [0, 0, 0, 0, 0, 0],
       I2CReadLength = 0, I2CWriteLength = 0, i_counter = 0,
       engine_outcomes = (\<lambda>n. (False, \<lambda>k. 0)), engine_calls = 0,
       i2cInit_outcomes = (\<lambda>n. False), i2cInit_calls = 0, elapsed_ms = 0 \<rparr>"




section \<open>Properties of tsl2561CalculateLux\<close>

lemmas lux_defs =
  tsl2561CalculateLux_def lux_channel_def lux_chScale_def lux_ratio_def
  lux_coefficients_def lux_round_def

subsection \<open>Word arithmetic\<close>

lemma unat_ucast16: "unat (ucast (x :: u16) :: u32) = unat x"
proof -
  have "unat x < 2 ^ 16" using unsigned_less [of x] by simp
  then have "unat x < 2 ^ 32" by simp
  then show ?thesis
    by (simp add: unsigned_ucast_eq take_bit_nat_eq_self)
qed

lemma unat_2p: "n < 32 \<Longrightarrow> unat (2 ^ n :: u32) = 2 ^ n"
proof -
  assume n: "n < 32"
  have "unat (2 ^ n :: u32) = unat (of_nat (2 ^ n) :: u32)" by simp
  also have "\<dots> = 2 ^ n mod 2 ^ 32" by (simp only: unat_of_nat) simp
  also have "\<dots> = 2 ^ n"
  proof -
    have "(2::nat) ^ n < 2 ^ 32" by (rule power_strict_increasing) (use n in simp_all)
    then show ?thesis by simp
  qed
  finally show ?thesis .
qed

text \<open>The comparison \<open>temp < 0\<close> never holds, so the clamp is the identity.\<close>

lemma lux_round_eq:
  "lux_round c x z b m =
     drop_bit (TSL2561_LUX_LUXSCALE c) (x * b - z * m + push_bit (TSL2561_LUX_LUXSCALE c - 1) 1)"
  by (simp add: lux_round_def Let_def)

lemma lux_round_zero: "0 < TSL2561_LUX_LUXSCALE c \<Longrightarrow> lux_round c 0 0 b m = 0"
  unfolding lux_round_def
  by (simp add: Let_def) (rule bit_word_eqI, auto simp add: bit_simps)

lemma lux_channel_mono:
  assumes "ch0 \<le> ch0'" "unat ch0' * unat (lux_chScale c st) < 2 ^ 32"
  shows "unat (lux_channel c st ch0) \<le> unat (lux_channel c st ch0')"
proof -
  have le: "unat ch0 \<le> unat ch0'" using assms(1) by (simp add: word_le_nat_alt)
  then have small: "unat ch0 * unat (lux_chScale c st) < 2 ^ 32"
    using assms(2) by (meson le_less_trans mult_le_mono1)
  have a: "unat (ucast ch0 * lux_chScale c st) = unat ch0 * unat (lux_chScale c st)"
    using small by (simp add: unat_word_ariths unat_ucast16)
  have b: "unat (ucast ch0' * lux_chScale c st) = unat ch0' * unat (lux_chScale c st)"
    using assms(2) by (simp add: unat_word_ariths unat_ucast16)
  have "unat ch0 * unat (lux_chScale c st) div 2 ^ TSL2561_LUX_CHSCALE c
      \<le> unat ch0' * unat (lux_chScale c st) div 2 ^ TSL2561_LUX_CHSCALE c"
    by (rule div_le_mono) (simp add: le mult_le_mono1)
  then show ?thesis
    unfolding lux_channel_def unat_drop_bit_eq a b by (simp add: drop_bit_eq_div)
qed

lemma lux_round_mono:
  assumes xx: "unat x \<le> unat x'"
    and prod: "unat x' * unat b < 2 ^ 32"
    and nonneg: "z * m \<le> x * b"
    and bias: "unat (x' * b - z * m) + 2 ^ (TSL2561_LUX_LUXSCALE c - 1) < (2::nat) ^ 32"
  shows "lux_round c x z b m \<le> lux_round c x' z b m"
proof -
  let ?L = "TSL2561_LUX_LUXSCALE c"
  let ?r = "push_bit (?L - 1) 1 :: u32"
  have L: "?L - 1 < 32"
  proof (rule ccontr)
    assume "\<not> ?L - 1 < 32"
    then have "(2::nat) ^ 32 \<le> 2 ^ (?L - 1)" by (intro power_increasing) simp_all
    with bias show False by simp
  qed
  have r: "unat ?r = 2 ^ (?L - 1)"
    using L by (simp add: unat_2p)
  have p': "unat (x' * b) = unat x' * unat b"
    using prod by (simp add: unat_word_ariths)
  have "unat x * unat b \<le> unat x' * unat b" using xx by (simp add: mult_le_mono1)
  then have "unat x * unat b < 2 ^ 32" using prod by (rule le_less_trans)
  then have p: "unat (x * b) = unat x * unat b"
    by (simp add: unat_word_ariths)
  have le: "x * b \<le> x' * b"
    using xx by (simp add: word_le_nat_alt p p' mult_le_mono1)
  have nonneg': "z * m \<le> x' * b" using nonneg le by simp
  have t: "unat (x * b - z * m) = unat (x * b) - unat (z * m)"
    using nonneg by (simp add: unat_sub)
  have t': "unat (x' * b - z * m) = unat (x' * b) - unat (z * m)"
    using nonneg' by (simp add: unat_sub)
  have tt: "unat (x * b - z * m) \<le> unat (x' * b - z * m)"
    using le by (simp add: t t' word_le_nat_alt diff_le_mono)
  have "unat (x' * b - z * m) + unat ?r < 2 ^ LENGTH(32)"
    using bias r by simp
  then have s': "unat (x' * b - z * m + ?r) = unat (x' * b - z * m) + unat ?r"
    by (simp only: unat_add_lem)
  have "unat (x * b - z * m) + unat ?r < 2 ^ LENGTH(32)"
    using bias r tt by simp
  then have s: "unat (x * b - z * m + ?r) = unat (x * b - z * m) + unat ?r"
    by (simp only: unat_add_lem)
  have "(unat (x * b - z * m) + 2 ^ (?L - 1)) div 2 ^ ?L
      \<le> (unat (x' * b - z * m) + 2 ^ (?L - 1)) div 2 ^ ?L"
    by (rule div_le_mono) (simp add: tt)
  then show ?thesis
    unfolding lux_round_eq word_le_nat_alt unat_drop_bit_eq s s' r by (simp add: drop_bit_eq_div)
qed

lemma lux_coefficients_spec:
  "TSL2561_LUX_K8 c \<le> TSL2561_LUX_K7 c \<Longrightarrow>
     lux_coefficients c ratio = Some (spec_breakpoint c ratio)"
  by (auto simp add: lux_coefficients_def spec_breakpoint_def lux_table_def)

subsection \<open>The clamp of negative values\<close>

text \<open>
  C1. The specification: a raw lux value \<open>channel0*B - channel1*M\<close> that is negative is
  clamped to zero before the rounding bias is added, and with \<open>ch0 = 0\<close> the result
  is the constant that the rounding bias alone produces, whatever \<open>ch1\<close> is. The
  code compares an \<open>unsigned long\<close> with zero, which never holds, under the comment
  "do not allow negative lux value". With the datasheet constants, 402 ms and
  gain 1x, \<open>ch0 = 0\<close> and \<open>ch1 = 500\<close> give 261926, the wrapped value of
  \<open>0 - 8000 * 446\<close> after rounding, and \<open>ch1 = 1000\<close> gives another value; the
  rounding bias alone gives 0.
\<close>

theorem tsl2561CalculateLux_negative_wraps:
  "tsl2561CalculateLux tsl2561_T_package (lux_state 2 0) 0 500 = Some 261926
   \<and> tsl2561CalculateLux tsl2561_T_package (lux_state 2 0) 0 1000 = Some 261708
   \<and> tsl2561CalculateLux tsl2561_T_package (lux_state 2 0) 0 0 = Some 0"
  by (simp add: lux_defs tsl2561_T_package_def lux_state_def)

subsection \<open>Selection of the coefficients\<close>



subsection \<open>Zero input\<close>

text \<open>
  C6. For every integration time and gain, \<open>tsl2561CalculateLux(0, 0)\<close> is 0: the
  ratio is taken as zero instead of dividing by zero, the raw lux is 0, and the
  rounding bias \<open>1 << (LUXSCALE - 1)\<close> shifted right by \<open>LUXSCALE\<close> is 0. The shift
  count \<open>LUXSCALE - 1\<close> must not be negative.
\<close>

theorem tsl2561CalculateLux_zero:
  assumes "0 < TSL2561_LUX_LUXSCALE c"
  shows "tsl2561CalculateLux c st 0 0 = Some 0"
  using assms
  by (simp add: tsl2561CalculateLux_def lux_channel_def lux_ratio_def lux_coefficients_def
      lux_round_zero)

theorem tsl2561CalculateLux_zero_witness:
  "0 < TSL2561_LUX_LUXSCALE tsl2561_T_package
   \<and> tsl2561CalculateLux tsl2561_T_package (lux_state 0 16) 0 0 = Some 0"
proof -
  have h: "0 < TSL2561_LUX_LUXSCALE tsl2561_T_package"
    by (simp add: tsl2561_T_package_def)
  show ?thesis
    using h tsl2561CalculateLux_zero [OF h, of "lux_state 0 16"] by simp
qed

subsection \<open>Monotonicity in the broadband channel\<close>

text \<open>
  C7. The specification: for a fixed \<open>ch1\<close>, integration time and gain, and \<open>ch0 \<le> ch0'\<close>
  whose rounded ratios select the same breakpoint, the lux of \<open>ch0\<close> is at most
  the lux of \<open>ch0'\<close>. It fails where the 32-bit product \<open>ch0 * chScale\<close> wraps:
  at 13 ms and gain 1x the scale is \<open>0x7517 << 4\<close>, and the step from 8955 to 8956
  wraps the product, both ratios being 0 (first breakpoint).
\<close>

theorem tsl2561CalculateLux_monotone_counterexample:
  "(8955 :: u16) \<le> 8956
   \<and> lux_coefficients tsl2561_T_package
       (lux_ratio tsl2561_T_package (lux_channel tsl2561_T_package (lux_state 0 0) 8955)
          (lux_channel tsl2561_T_package (lux_state 0 0) 0)) = Some (1, 0x1F2, 0x1BE)
   \<and> lux_coefficients tsl2561_T_package
       (lux_ratio tsl2561_T_package (lux_channel tsl2561_T_package (lux_state 0 0) 8956)
          (lux_channel tsl2561_T_package (lux_state 0 0) 0)) = Some (1, 0x1F2, 0x1BE)
   \<and> tsl2561CalculateLux tsl2561_T_package (lux_state 0 0) 8955 0 = Some 127484
   \<and> tsl2561CalculateLux tsl2561_T_package (lux_state 0 0) 8956 0 = Some 10
   \<and> (10 :: u32) < 127484"
  by (simp add: lux_defs tsl2561_T_package_def lux_state_def)

text \<open>
  C7, as the code has it. The lux does not decrease from \<open>ch0\<close> to \<open>ch0'\<close> within one
  breakpoint when no step of the computation leaves the 32-bit range: the scaling
  of \<open>ch0'\<close> does not wrap, \<open>channel0' * b\<close> does not wrap, the raw lux of \<open>ch0\<close>
  is not negative (\<open>channel1 * m \<le> channel0 * b\<close>), and adding the rounding bias
  to the raw lux of \<open>ch0'\<close> does not wrap.
\<close>

theorem tsl2561CalculateLux_monotone_in_segment:
  fixes st :: "'b tsl2561_state"
  assumes le: "ch0 \<le> ch0'"
    and seg: "lux_coefficients c
                (lux_ratio c (lux_channel c st ch0) (lux_channel c st ch1)) = Some (n, b, m)"
    and seg': "lux_coefficients c
                (lux_ratio c (lux_channel c st ch0') (lux_channel c st ch1)) = Some (n, b, m)"
    and scale: "unat ch0' * unat (lux_chScale c st) < 2 ^ 32"
    and prod: "unat (lux_channel c st ch0') * unat b < 2 ^ 32"
    and nonneg: "lux_channel c st ch1 * m \<le> lux_channel c st ch0 * b"
    and bias: "unat (lux_channel c st ch0' * b - lux_channel c st ch1 * m)
                 + 2 ^ (TSL2561_LUX_LUXSCALE c - 1) < (2::nat) ^ 32"
  shows "\<exists>lux lux'. tsl2561CalculateLux c st ch0 ch1 = Some lux
           \<and> tsl2561CalculateLux c st ch0' ch1 = Some lux' \<and> lux \<le> lux'"
proof -
  have "lux_round c (lux_channel c st ch0) (lux_channel c st ch1) b m
          \<le> lux_round c (lux_channel c st ch0') (lux_channel c st ch1) b m"
    using lux_channel_mono [OF le scale] prod nonneg bias by (rule lux_round_mono)
  then show ?thesis
    by (simp add: tsl2561CalculateLux_def seg seg' Let_def)
qed

theorem tsl2561CalculateLux_monotone_in_segment_witness:
  "\<exists>lux lux'. tsl2561CalculateLux tsl2561_T_package (lux_state 2 16) 100 10 = Some lux
           \<and> tsl2561CalculateLux tsl2561_T_package (lux_state 2 16) 200 10 = Some lux'
           \<and> lux \<le> lux'"
proof -
  let ?c = tsl2561_T_package
  let ?st = "lux_state 2 16"
  have le: "(100 :: u16) \<le> 200" by simp
  have seg: "lux_coefficients ?c (lux_ratio ?c (lux_channel ?c ?st 100) (lux_channel ?c ?st 10))
               = Some (1, 0x1F2, 0x1BE)"
    by (simp add: lux_defs tsl2561_T_package_def lux_state_def)
  have seg': "lux_coefficients ?c (lux_ratio ?c (lux_channel ?c ?st 200) (lux_channel ?c ?st 10))
               = Some (1, 0x1F2, 0x1BE)"
    by (simp add: lux_defs tsl2561_T_package_def lux_state_def)
  have scale: "unat (200 :: u16) * unat (lux_chScale ?c ?st) < 2 ^ 32"
    by (simp add: lux_defs tsl2561_T_package_def lux_state_def)
  have prod: "unat (lux_channel ?c ?st 200) * unat (0x1F2 :: u32) < 2 ^ 32"
    by (simp add: lux_defs tsl2561_T_package_def lux_state_def)
  have nonneg: "lux_channel ?c ?st 10 * 0x1BE \<le> lux_channel ?c ?st 100 * 0x1F2"
    by (simp add: lux_defs tsl2561_T_package_def lux_state_def)
  have bias: "unat (lux_channel ?c ?st 200 * 0x1F2 - lux_channel ?c ?st 10 * 0x1BE)
                 + 2 ^ (TSL2561_LUX_LUXSCALE ?c - 1) < (2::nat) ^ 32"
    by (simp add: lux_defs tsl2561_T_package_def lux_state_def)
  show ?thesis
    by (rule tsl2561CalculateLux_monotone_in_segment [OF le seg seg' scale prod nonneg bias])
qed

subsection \<open>Determinism\<close>

text \<open>
  C8. The lux depends on \<open>ch0\<close>, \<open>ch1\<close>, the integration time and the gain only:
  two states that agree on the integration time and the gain give the same, defined
  result, whatever the flag, the bus below and the history are (the two states may
  even sit on different bus layers). The result is defined when the chain assigns
  coefficients to every ratio (see C5).
\<close>

theorem tsl2561CalculateLux_deterministic:
  fixes st :: "'a tsl2561_state" and st' :: "'b tsl2561_state"
  assumes "TSL2561_LUX_K8 c \<le> TSL2561_LUX_K7 c"
    and "tsl2561IntegrationTime st = tsl2561IntegrationTime st'"
    and "tsl2561Gain st = tsl2561Gain st'"
  shows "\<exists>lux. tsl2561CalculateLux c st ch0 ch1 = Some lux
           \<and> tsl2561CalculateLux c st' ch0 ch1 = Some lux"
  using assms
  by (simp add: tsl2561CalculateLux_def lux_channel_def lux_chScale_def lux_coefficients_spec
      Let_def split: prod.splits)

theorem tsl2561CalculateLux_deterministic_witness:
  "\<exists>lux. tsl2561CalculateLux tsl2561_T_package (lux_state 2 0) 100 30 = Some lux
       \<and> tsl2561CalculateLux tsl2561_T_package
           (sim_state False [(TSL2561_ERROR_BUSTRANSFER, 5)]) 100 30 = Some lux"
proof -
  have k: "TSL2561_LUX_K8 tsl2561_T_package \<le> TSL2561_LUX_K7 tsl2561_T_package"
    by (simp add: tsl2561_T_package_def)
  have i: "tsl2561IntegrationTime (lux_state 2 0)
             = tsl2561IntegrationTime (sim_state False [(TSL2561_ERROR_BUSTRANSFER, 5)])"
    by (simp add: lux_state_def sim_state_def)
  have g: "tsl2561Gain (lux_state 2 0)
             = tsl2561Gain (sim_state False [(TSL2561_ERROR_BUSTRANSFER, 5)])"
    by (simp add: lux_state_def sim_state_def)
  show ?thesis
    by (rule tsl2561CalculateLux_deterministic [OF k i g])
qed

section \<open>Properties of the bus transaction layer\<close>

lemma clear_write_buffer_eq:
  "i \<le> n \<Longrightarrow> length buf = n \<Longrightarrow>
     clear_write_buffer i n buf = (n, take i buf @ replicate (n - i) 0)"
proof (induction i n buf rule: clear_write_buffer.induct)
  case (1 i n buf)
  show ?case
  proof (cases "i < n")
    case True
    have "take i buf @ replicate (n - i) 0 = take (i + 1) (buf[i := 0]) @ replicate (n - (i + 1)) 0"
      using True 1(3)
      by (simp add: take_Suc_conv_app_nth replicate_app_Cons_same Suc_diff_Suc flip: replicate_Suc)
    with True 1 show ?thesis
      by (subst clear_write_buffer.simps) simp
  next
    case False
    with 1 show ?thesis by (subst clear_write_buffer.simps) simp
  qed
qed

lemma clear_buffers_engine [simp]:
  "engine_calls (clear_buffers c s) = engine_calls s"
  "engine_outcomes (clear_buffers c s) = engine_outcomes s"
  by (simp_all add: clear_buffers_def split: prod.splits)

lemma i2cEngine_calls [simp]: "engine_calls (snd (i2cEngine s)) = engine_calls s + 1"
  by (simp add: i2cEngine_def split: prod.splits)

lemma low_byte:
  fixes val val' :: u32
  assumes "unat val mod 256 = unat val' mod 256"
  shows "val AND 0xFF = val' AND 0xFF"
proof -
  have m: "w AND 0xFF = take_bit 8 w" for w :: u32
    by (simp add: take_bit_eq_mask mask_eq_exp_minus_1)
  have u: "unat (take_bit 8 w) = unat w mod 256" for w :: u32
    unfolding unsigned_take_bit_eq by (simp add: take_bit_eq_mod)
  have "unat (take_bit 8 val) = unat (take_bit 8 val')"
    using assms by (simp only: u)
  then show ?thesis by (simp only: m word_unat_eq_iff)
qed


text \<open>
  What \<open>tsl2561Write8\<close> leaves in the transmit buffer and the lengths, for buffers
  of the declared size with room for the three bytes.
\<close>

lemma tsl2561Write8_buffer:
  assumes "length (I2CMasterBuffer s) = I2C_BUFSIZE c" "3 \<le> I2C_BUFSIZE c"
  shows "I2CMasterBuffer (snd (tsl2561Write8 c reg val s)) =
     [ucast (TSL2561_ADDRESS c), reg, ucast (val AND 0xFF)] @ replicate (I2C_BUFSIZE c - 3) 0"
   and "I2CWriteLength (snd (tsl2561Write8 c reg val s)) = 3"
   and "I2CReadLength (snd (tsl2561Write8 c reg val s)) = 0"
  using assms
    apply (simp_all add: tsl2561Write8_def Let_def i2cEngine_def clear_buffers_def clear_write_buffer_eq split: prod.splits)
  apply (cases "I2C_BUFSIZE c", simp)
  subgoal for n1 apply (cases n1, simp)
    subgoal for n2 apply (cases n2, simp) by simp
    done
  done

subsection \<open>Failure of the transfer\<close>

text \<open>
  C3. The specification: when the transfer of the bus engine fails, \<open>tsl2561WriteCmd\<close>,
  \<open>tsl2561Write8\<close> and \<open>tsl2561Read16\<close> return a bus error, and there is no retry.
  None of the three looks at what \<open>i2cEngine()\<close> returns; each ends with
  \<open>return TSL2561_ERROR_OK\<close>. On a state whose engine fails every transfer, all
  three return \<open>TSL2561_ERROR_OK\<close>.
\<close>

theorem bus_layer_failure_counterexample:
  "fst (i2cEngine i2c_failing) = False
   \<and> fst (tsl2561WriteCmd tsl2561_T_package 0x80 i2c_failing) = TSL2561_ERROR_OK
   \<and> fst (tsl2561Write8 tsl2561_T_package 0x80 0x03 i2c_failing) = TSL2561_ERROR_OK
   \<and> fst (fst (tsl2561Read16 tsl2561_T_package 0xAC i2c_failing)) = TSL2561_ERROR_OK"
  by (simp add: tsl2561WriteCmd_def tsl2561Write8_def tsl2561Read16_def Let_def i2cEngine_def
      i2c_failing_def split: prod.splits)

text \<open>
  C3, as the code has it. Each of the three functions calls the bus engine exactly once
  (no retry) and returns \<open>TSL2561_ERROR_OK\<close>, whether the transfer succeeds or
  fails.
\<close>

theorem bus_layer_returns_ok_one_transfer:
  "fst (tsl2561WriteCmd c cmd s) = TSL2561_ERROR_OK
   \<and> engine_calls (snd (tsl2561WriteCmd c cmd s)) = engine_calls s + 1
   \<and> fst (tsl2561Write8 c reg val s) = TSL2561_ERROR_OK
   \<and> engine_calls (snd (tsl2561Write8 c reg val s)) = engine_calls s + 1
   \<and> fst (fst (tsl2561Read16 c reg s)) = TSL2561_ERROR_OK
   \<and> engine_calls (snd (tsl2561Read16 c reg s)) = engine_calls s + 1"
  by (simp add: tsl2561WriteCmd_def tsl2561Write8_def tsl2561Read16_def Let_def i2cEngine_def
      split: prod.splits)

subsection \<open>The value written\<close>

text \<open>
  C10. \<open>tsl2561Write8\<close> takes a 32-bit value and transmits its low byte. It sets
  the write length to 3 and the read length to 0, calls the bus engine once, and,
  the transmit buffer having its declared size with room for three bytes, leaves
  in it the device address, the register and \<open>value & 0xFF\<close>, followed by zeros;
  the third byte is the value modulo 256. Hence, for every register, two values
  congruent modulo 256 give the same transmit buffer, the same lengths and the
  same state altogether.
\<close>

theorem tsl2561Write8_low_byte:
  "(unat val mod 256 = unat val' mod 256 \<longrightarrow>
      tsl2561Write8 c reg val s = tsl2561Write8 c reg val' s)
   \<and> I2CWriteLength (snd (tsl2561Write8 c reg val s)) = 3
   \<and> I2CReadLength (snd (tsl2561Write8 c reg val s)) = 0
   \<and> engine_calls (snd (tsl2561Write8 c reg val s)) = engine_calls s + 1
   \<and> (length (I2CMasterBuffer s) = I2C_BUFSIZE c \<and> 3 \<le> I2C_BUFSIZE c \<longrightarrow>
        I2CMasterBuffer (snd (tsl2561Write8 c reg val s)) =
          [ucast (TSL2561_ADDRESS c), reg, ucast (val AND 0xFF)] @ replicate (I2C_BUFSIZE c - 3) 0
        \<and> unat (I2CMasterBuffer (snd (tsl2561Write8 c reg val s)) ! 2) = unat val mod 256)"
proof -
  have eq: "tsl2561Write8 c reg val s = tsl2561Write8 c reg val' s"
    if "unat val mod 256 = unat val' mod 256"
    using low_byte [OF that] by (simp add: tsl2561Write8_def)
  have len: "I2CWriteLength (snd (tsl2561Write8 c reg val s)) = 3"
    "I2CReadLength (snd (tsl2561Write8 c reg val s)) = 0"
    by (simp_all add: tsl2561Write8_def Let_def i2cEngine_def split: prod.splits)
  have u: "unat (ucast (val AND 0xFF) :: u8) = unat val mod 256"
  proof -
    have m: "val AND 0xFF = take_bit 8 val"
      by (simp add: take_bit_eq_mask mask_eq_exp_minus_1)
    have "unat (ucast (take_bit 8 val) :: u8) = take_bit 8 (unat (take_bit 8 val))"
      by (simp add: unsigned_ucast_eq)
    also have "\<dots> = take_bit 8 (unat val)"
      unfolding unsigned_take_bit_eq by simp
    also have "\<dots> = unat val mod 256" by (simp add: take_bit_eq_mod)
    finally show ?thesis by (simp only: m)
  qed
  have buf: "I2CMasterBuffer (snd (tsl2561Write8 c reg val s)) =
          [ucast (TSL2561_ADDRESS c), reg, ucast (val AND 0xFF)] @ replicate (I2C_BUFSIZE c - 3) 0"
    if "length (I2CMasterBuffer s) = I2C_BUFSIZE c" "3 \<le> I2C_BUFSIZE c"
    using that by (rule tsl2561Write8_buffer(1))
  have ec: "engine_calls (snd (tsl2561Write8 c reg val s)) = engine_calls s + 1"
    by (simp add: tsl2561Write8_def Let_def i2cEngine_def split: prod.splits)
  show ?thesis
    using eq len buf u ec by simp
qed

theorem tsl2561Write8_low_byte_witness:
  "tsl2561Write8 tsl2561_T_package 0x81 0x0312 i2c_failing
     = tsl2561Write8 tsl2561_T_package 0x81 0x12 i2c_failing
   \<and> I2CMasterBuffer (snd (tsl2561Write8 tsl2561_T_package 0x81 0x0312 i2c_failing))
       = [0x72, 0x81, 0x12, 0, 0, 0]
   \<and> I2CWriteLength (snd (tsl2561Write8 tsl2561_T_package 0x81 0x0312 i2c_failing)) = 3
   \<and> I2CReadLength (snd (tsl2561Write8 tsl2561_T_package 0x81 0x0312 i2c_failing)) = 0"
proof -
  have h: "unat (0x0312 :: u32) mod 256 = unat (0x12 :: u32) mod 256" by simp
  have l: "length (I2CMasterBuffer i2c_failing) = I2C_BUFSIZE tsl2561_T_package
           \<and> 3 \<le> I2C_BUFSIZE tsl2561_T_package"
    by (simp add: i2c_failing_def tsl2561_T_package_def)
  have r: "replicate (I2C_BUFSIZE tsl2561_T_package - 3) (0 :: u8) = [0, 0, 0]"
    by (simp add: tsl2561_T_package_def numeral_3_eq_3)
  have a: "ucast (TSL2561_ADDRESS tsl2561_T_package) = (0x72 :: u8)"
    by (simp add: tsl2561_T_package_def)
  have v: "ucast ((0x0312 :: u32) AND 0xFF) = (0x12 :: u8)" by simp
  note t = tsl2561Write8_low_byte [of "0x0312" "0x12" tsl2561_T_package "0x81" i2c_failing]
  have e: "tsl2561Write8 tsl2561_T_package 0x81 0x0312 i2c_failing
          = tsl2561Write8 tsl2561_T_package 0x81 0x12 i2c_failing"
    using t h by blast
  have w: "I2CWriteLength (snd (tsl2561Write8 tsl2561_T_package 0x81 0x0312 i2c_failing)) = 3"
    and rd: "I2CReadLength (snd (tsl2561Write8 tsl2561_T_package 0x81 0x0312 i2c_failing)) = 0"
    using t by blast+
  have "I2CMasterBuffer (snd (tsl2561Write8 tsl2561_T_package 0x81 0x0312 i2c_failing))
            = [0x72, 0x81, 0x12] @ [0, 0, 0]"
    using t l unfolding r a v by blast
  then have b: "I2CMasterBuffer (snd (tsl2561Write8 tsl2561_T_package 0x81 0x0312 i2c_failing))
            = [0x72, 0x81, 0x12, 0, 0, 0]"
    by simp
  show ?thesis using e w rd b by blast
qed

section \<open>Properties of the driver\<close>

subsection \<open>Frame and unfolding lemmas\<close>

lemma log_call_simps [simp]:
  "tsl2561Initialised (log_call e st) = tsl2561Initialised st"
  "tsl2561IntegrationTime (log_call e st) = tsl2561IntegrationTime st"
  "tsl2561Gain (log_call e st) = tsl2561Gain st"
  "bus (log_call e st) = bus st"
  "calls (log_call e st) = calls st @ [e]"
  by (simp_all add: log_call_def)

lemma call_Write8_eq:
  "bus_Write8 ops reg val (bus st) = (e, b) \<Longrightarrow>
     call_Write8 ops reg val st = (e, st\<lparr>bus := b, calls := calls st @ [CALL_Write8 reg val]\<rparr>)"
  by (simp add: call_Write8_def log_call_def)

lemma call_Read16_eq:
  "bus_Read16 ops reg old (bus st) = ((e, v), b) \<Longrightarrow>
     call_Read16 ops reg old st = (e, v, st\<lparr>bus := b, calls := calls st @ [CALL_Read16 reg]\<rparr>)"
  by (simp add: call_Read16_def log_call_def)

lemma call_i2cInit_eq:
  "bus_i2cInit ops (bus st) = (ok, b) \<Longrightarrow>
     call_i2cInit ops st = (ok, st\<lparr>bus := b, calls := calls st @ [CALL_i2cInit]\<rparr>)"
  by (simp add: call_i2cInit_def log_call_def)

lemma call_Write8_frame [simp]:
  "tsl2561Initialised (snd (call_Write8 ops reg val st)) = tsl2561Initialised st"
  "tsl2561IntegrationTime (snd (call_Write8 ops reg val st)) = tsl2561IntegrationTime st"
  "tsl2561Gain (snd (call_Write8 ops reg val st)) = tsl2561Gain st"
  "calls (snd (call_Write8 ops reg val st)) = calls st @ [CALL_Write8 reg val]"
  by (simp_all add: call_Write8_def Let_def split: prod.splits)

lemma call_Read16_frame [simp]:
  "tsl2561Initialised (snd (snd (call_Read16 ops reg old st))) = tsl2561Initialised st"
  "tsl2561IntegrationTime (snd (snd (call_Read16 ops reg old st))) = tsl2561IntegrationTime st"
  "tsl2561Gain (snd (snd (call_Read16 ops reg old st))) = tsl2561Gain st"
  "calls (snd (snd (call_Read16 ops reg old st))) = calls st @ [CALL_Read16 reg]"
  by (simp_all add: call_Read16_def Let_def split: prod.splits)

lemma call_i2cInit_frame [simp]:
  "tsl2561Initialised (snd (call_i2cInit ops st)) = tsl2561Initialised st"
  "tsl2561IntegrationTime (snd (call_i2cInit ops st)) = tsl2561IntegrationTime st"
  "tsl2561Gain (snd (call_i2cInit ops st)) = tsl2561Gain st"
  "calls (snd (call_i2cInit ops st)) = calls st @ [CALL_i2cInit]"
  by (simp_all add: call_i2cInit_def Let_def split: prod.splits)

lemma call_systickDelay_frame [simp]:
  "tsl2561Initialised (call_systickDelay ops ms st) = tsl2561Initialised st"
  "tsl2561IntegrationTime (call_systickDelay ops ms st) = tsl2561IntegrationTime st"
  "tsl2561Gain (call_systickDelay ops ms st) = tsl2561Gain st"
  "calls (call_systickDelay ops ms st) = calls st @ [CALL_systickDelay ms]"
  by (simp_all add: call_systickDelay_def Let_def)

lemma init_if_needed_initialised [simp]:
  "tsl2561Initialised st \<Longrightarrow> init_if_needed init st = st"
  by (simp add: init_if_needed_def)

lemma Enable_from_initialised:
  "tsl2561Initialised st \<Longrightarrow>
     tsl2561Enable_from init c ops st =
       call_Write8 ops (ucast (TSL2561_COMMAND_BIT c OR TSL2561_REGISTER_CONTROL c))
         (TSL2561_CONTROL_POWERON c) (log_call CALL_Enable st)"
  by (simp add: tsl2561Enable_from_def)

lemma Disable_from_initialised:
  "tsl2561Initialised st \<Longrightarrow>
     tsl2561Disable_from init c ops st =
       call_Write8 ops (ucast (TSL2561_COMMAND_BIT c OR TSL2561_REGISTER_CONTROL c))
         (TSL2561_CONTROL_POWEROFF c) (log_call CALL_Disable st)"
  by (simp add: tsl2561Disable_from_def)



lemma snd_eqD: "f = (a, b) \<Longrightarrow> b = snd f"
  by simp




lemma SetTiming_from_steps:
  assumes "tsl2561Enable_from init c ops
             (init_if_needed init (log_call (CALL_SetTiming integration gain) st)) = (e1, s1)"
    and "call_Write8 ops (ucast (TSL2561_COMMAND_BIT c OR TSL2561_REGISTER_TIMING c))
           (integration OR gain) s1 = (e2, s2)"
    and "tsl2561Disable_from init c ops
           (s2\<lparr>tsl2561IntegrationTime := integration, tsl2561Gain := gain\<rparr>) = (e3, s3)"
  shows "tsl2561SetTiming_from init c ops integration gain st =
           (if e1 \<noteq> TSL2561_ERROR_OK then (e1, s1)
            else if e2 \<noteq> TSL2561_ERROR_OK then (e2, s2) else (e3, s3))"
  using assms by (simp add: tsl2561SetTiming_from_def Let_def)

lemma init_if_needed_fields:
  assumes "\<And>s. tsl2561IntegrationTime (snd (init s)) = tsl2561IntegrationTime s
              \<and> tsl2561Gain (snd (init s)) = tsl2561Gain s"
  shows "tsl2561IntegrationTime (init_if_needed init st) = tsl2561IntegrationTime st
       \<and> tsl2561Gain (init_if_needed init st) = tsl2561Gain st"
  using assms by (simp add: init_if_needed_def)

lemma Enable_from_fields:
  assumes "\<And>s. tsl2561IntegrationTime (snd (init s)) = tsl2561IntegrationTime s
              \<and> tsl2561Gain (snd (init s)) = tsl2561Gain s"
  shows "tsl2561IntegrationTime (snd (tsl2561Enable_from init c ops st)) = tsl2561IntegrationTime st
       \<and> tsl2561Gain (snd (tsl2561Enable_from init c ops st)) = tsl2561Gain st"
  using init_if_needed_fields [of init, OF assms] by (simp add: tsl2561Enable_from_def Let_def)

lemma Disable_from_fields:
  assumes "\<And>s. tsl2561IntegrationTime (snd (init s)) = tsl2561IntegrationTime s
              \<and> tsl2561Gain (snd (init s)) = tsl2561Gain s"
  shows "tsl2561IntegrationTime (snd (tsl2561Disable_from init c ops st)) = tsl2561IntegrationTime st
       \<and> tsl2561Gain (snd (tsl2561Disable_from init c ops st)) = tsl2561Gain st"
  using init_if_needed_fields [of init, OF assms] by (simp add: tsl2561Disable_from_def Let_def)

lemma SetTiming_from_fields:
  assumes init: "\<And>s. tsl2561IntegrationTime (snd (init s)) = tsl2561IntegrationTime s
              \<and> tsl2561Gain (snd (init s)) = tsl2561Gain s"
  shows "(tsl2561IntegrationTime (snd (tsl2561SetTiming_from init c ops integration gain st)) = tsl2561IntegrationTime st
          \<and> tsl2561Gain (snd (tsl2561SetTiming_from init c ops integration gain st)) = tsl2561Gain st)
       \<or> (tsl2561IntegrationTime (snd (tsl2561SetTiming_from init c ops integration gain st)) = integration
          \<and> tsl2561Gain (snd (tsl2561SetTiming_from init c ops integration gain st)) = gain)"
proof -
  let ?s0 = "init_if_needed init (log_call (CALL_SetTiming integration gain) st)"
  obtain e1 s1 where en: "tsl2561Enable_from init c ops ?s0 = (e1, s1)"
    by (cases "tsl2561Enable_from init c ops ?s0")
  obtain e2 s2 where
    wr: "call_Write8 ops (ucast (TSL2561_COMMAND_BIT c OR TSL2561_REGISTER_TIMING c))
           (integration OR gain) s1 = (e2, s2)"
    by (cases "call_Write8 ops (ucast (TSL2561_COMMAND_BIT c OR TSL2561_REGISTER_TIMING c))
           (integration OR gain) s1")
  obtain e3 s3 where
    dis: "tsl2561Disable_from init c ops
           (s2\<lparr>tsl2561IntegrationTime := integration, tsl2561Gain := gain\<rparr>) = (e3, s3)"
    by (cases "tsl2561Disable_from init c ops
           (s2\<lparr>tsl2561IntegrationTime := integration, tsl2561Gain := gain\<rparr>)")
  have f0: "tsl2561IntegrationTime ?s0 = tsl2561IntegrationTime st \<and> tsl2561Gain ?s0 = tsl2561Gain st"
    using init_if_needed_fields [of init, OF init] by simp
  have f1: "tsl2561IntegrationTime s1 = tsl2561IntegrationTime st \<and> tsl2561Gain s1 = tsl2561Gain st"
    using Enable_from_fields [of init c ops ?s0, OF init] f0 by (simp add: en)
  have f2: "tsl2561IntegrationTime s2 = tsl2561IntegrationTime st \<and> tsl2561Gain s2 = tsl2561Gain st"
    using snd_eqD [OF wr] f1 by simp
  have f3: "tsl2561IntegrationTime s3 = integration \<and> tsl2561Gain s3 = gain"
    using Disable_from_fields [of init c ops "s2\<lparr>tsl2561IntegrationTime := integration, tsl2561Gain := gain\<rparr>", OF init]
    by (simp add: dis)
  show ?thesis
    unfolding SetTiming_from_steps [OF en wr dis] using f1 f2 f3 by simp
qed

lemma tsl2561Init_fields:
  "tsl2561IntegrationTime (snd (tsl2561Init c ops st)) = tsl2561IntegrationTime st
   \<and> tsl2561Gain (snd (tsl2561Init c ops st)) = tsl2561Gain st"
proof -
  have n: "tsl2561IntegrationTime (snd (init_not_entered s)) = tsl2561IntegrationTime s
              \<and> tsl2561Gain (snd (init_not_entered s)) = tsl2561Gain s" for s :: "'a tsl2561_state"
    by (simp add: init_not_entered_def)
  obtain ok s1 where i: "call_i2cInit ops (log_call CALL_Init st) = (ok, s1)"
    by (cases "call_i2cInit ops (log_call CALL_Init st)")
  have f1: "tsl2561IntegrationTime s1 = tsl2561IntegrationTime st \<and> tsl2561Gain s1 = tsl2561Gain st"
    using snd_eqD [OF i] by simp
  show ?thesis
    using SetTiming_from_fields [of init_not_entered c ops "tsl2561IntegrationTime st" "tsl2561Gain st"
        "s1\<lparr>tsl2561Initialised := True\<rparr>", OF n] f1
    by (auto simp add: tsl2561Init_def i Let_def split: prod.splits)
qed

lemma tsl2561Enable_fields:
  "tsl2561IntegrationTime (snd (tsl2561Enable c ops st)) = tsl2561IntegrationTime st
   \<and> tsl2561Gain (snd (tsl2561Enable c ops st)) = tsl2561Gain st"
  unfolding tsl2561Enable_def by (rule Enable_from_fields) (rule tsl2561Init_fields)

lemma tsl2561Disable_fields:
  "tsl2561IntegrationTime (snd (tsl2561Disable c ops st)) = tsl2561IntegrationTime st
   \<and> tsl2561Gain (snd (tsl2561Disable c ops st)) = tsl2561Gain st"
  unfolding tsl2561Disable_def by (rule Disable_from_fields) (rule tsl2561Init_fields)



text \<open>The bodies of the source, each function in terms of the others.\<close>

lemma tsl2561Enable_eq:
  "tsl2561Enable c ops st =
     (let st = log_call CALL_Enable st;
          st = (if \<not> tsl2561Initialised st then snd (tsl2561Init c ops st) else st)
      in call_Write8 ops (ucast (TSL2561_COMMAND_BIT c OR TSL2561_REGISTER_CONTROL c))
           (TSL2561_CONTROL_POWERON c) st)"
  by (simp add: tsl2561Enable_def tsl2561Enable_from_def init_if_needed_def)

lemma tsl2561Disable_eq:
  "tsl2561Disable c ops st =
     (let st = log_call CALL_Disable st;
          st = (if \<not> tsl2561Initialised st then snd (tsl2561Init c ops st) else st)
      in call_Write8 ops (ucast (TSL2561_COMMAND_BIT c OR TSL2561_REGISTER_CONTROL c))
           (TSL2561_CONTROL_POWEROFF c) st)"
  by (simp add: tsl2561Disable_def tsl2561Disable_from_def init_if_needed_def)

lemma tsl2561SetTiming_eq:
  "tsl2561SetTiming c ops integration gain st =
     (let st = log_call (CALL_SetTiming integration gain) st;
          st = (if \<not> tsl2561Initialised st then snd (tsl2561Init c ops st) else st);
          (error, st) = tsl2561Enable c ops st
      in if error \<noteq> TSL2561_ERROR_OK then (error, st)
         else
           let (error, st) =
                 call_Write8 ops (ucast (TSL2561_COMMAND_BIT c OR TSL2561_REGISTER_TIMING c))
                   (integration OR gain) st
           in if error \<noteq> TSL2561_ERROR_OK then (error, st)
              else
                let st = st\<lparr>tsl2561IntegrationTime := integration\<rparr>;
                    st = st\<lparr>tsl2561Gain := gain\<rparr>;
                    (error, st) = tsl2561Disable c ops st
                in if error \<noteq> TSL2561_ERROR_OK then (error, st) else (error, st))"
  unfolding tsl2561SetTiming_def tsl2561SetTiming_from_def tsl2561Enable_def
    tsl2561Disable_def init_if_needed_def
  by (rule refl)

lemma tsl2561GetLuminosity_eq:
  "tsl2561GetLuminosity c ops broadband ir st =
     (let st = log_call CALL_GetLuminosity st;
          st = (if \<not> tsl2561Initialised st then snd (tsl2561Init c ops st) else st);
          (error, st) = tsl2561Enable c ops st
      in if error \<noteq> TSL2561_ERROR_OK then (error, (broadband, ir), st)
         else
           let st = (if tsl2561IntegrationTime st = TSL2561_INTEGRATIONTIME_13MS c
                       then call_systickDelay ops 14 st
                     else if tsl2561IntegrationTime st = TSL2561_INTEGRATIONTIME_101MS c
                       then call_systickDelay ops 102 st
                     else call_systickDelay ops 400 st);
               (error, broadband, st) =
                 call_Read16 ops
                   (ucast (TSL2561_COMMAND_BIT c OR TSL2561_WORD_BIT c OR TSL2561_REGISTER_CHAN0_LOW c))
                   broadband st
           in if error \<noteq> TSL2561_ERROR_OK then (error, (broadband, ir), st)
              else
                let (error, ir, st) =
                      call_Read16 ops
                        (ucast (TSL2561_COMMAND_BIT c OR TSL2561_WORD_BIT c OR TSL2561_REGISTER_CHAN1_LOW c))
                        ir st
                in if error \<noteq> TSL2561_ERROR_OK then (error, (broadband, ir), st)
                   else
                     let (error, st) = tsl2561Disable c ops st
                     in if error \<noteq> TSL2561_ERROR_OK then (error, (broadband, ir), st)
                        else (error, (broadband, ir), st))"
  unfolding tsl2561GetLuminosity_def tsl2561GetLuminosity_from_def tsl2561Enable_def
    tsl2561Disable_def init_if_needed_def
  by (rule refl)


lemma Enable_initialised_calls:
  "tsl2561Initialised st \<Longrightarrow>
     calls (snd (tsl2561Enable_from init c ops st)) =
       calls st @ [CALL_Enable, CALL_Write8 (ucast (TSL2561_COMMAND_BIT c OR TSL2561_REGISTER_CONTROL c))
                     (TSL2561_CONTROL_POWERON c)]
     \<and> tsl2561Initialised (snd (tsl2561Enable_from init c ops st))"
  by (simp add: Enable_from_initialised)

lemma Disable_initialised_calls:
  "tsl2561Initialised st \<Longrightarrow>
     calls (snd (tsl2561Disable_from init c ops st)) =
       calls st @ [CALL_Disable, CALL_Write8 (ucast (TSL2561_COMMAND_BIT c OR TSL2561_REGISTER_CONTROL c))
                     (TSL2561_CONTROL_POWEROFF c)]
     \<and> tsl2561Initialised (snd (tsl2561Disable_from init c ops st))"
  by (simp add: Disable_from_initialised)

lemma GetLuminosity_from_steps:
  assumes "tsl2561Enable_from init c ops
             (init_if_needed init (log_call CALL_GetLuminosity st)) = (e1, s1)"
    and "s2 = (if tsl2561IntegrationTime s1 = TSL2561_INTEGRATIONTIME_13MS c
                 then call_systickDelay ops 14 s1
               else if tsl2561IntegrationTime s1 = TSL2561_INTEGRATIONTIME_101MS c
                 then call_systickDelay ops 102 s1
               else call_systickDelay ops 400 s1)"
    and "call_Read16 ops
           (ucast (TSL2561_COMMAND_BIT c OR TSL2561_WORD_BIT c OR TSL2561_REGISTER_CHAN0_LOW c))
           broadband s2 = (e2, v0, s3)"
    and "call_Read16 ops
           (ucast (TSL2561_COMMAND_BIT c OR TSL2561_WORD_BIT c OR TSL2561_REGISTER_CHAN1_LOW c))
           ir s3 = (e3, v1, s4)"
    and "tsl2561Disable_from init c ops s4 = (e4, s5)"
  shows "tsl2561GetLuminosity_from init c ops broadband ir st =
           (if e1 \<noteq> TSL2561_ERROR_OK then (e1, (broadband, ir), s1)
            else if e2 \<noteq> TSL2561_ERROR_OK then (e2, (v0, ir), s3)
            else if e3 \<noteq> TSL2561_ERROR_OK then (e3, (v0, v1), s4)
            else (e4, (v0, v1), s5))"
  using assms by (simp add: tsl2561GetLuminosity_from_def Let_def)

lemma snd_snd_eqD: "f = (a, b, c) \<Longrightarrow> c = snd (snd f)"
  by simp

lemmas driver_defs =
  tsl2561SetTiming_def tsl2561SetTiming_from_def tsl2561Enable_def tsl2561Enable_from_def
  tsl2561Disable_def tsl2561Disable_from_def tsl2561Init_def init_if_needed_def
  tsl2561GetLuminosity_def tsl2561GetLuminosity_from_def
  call_Write8_def call_Read16_def call_i2cInit_def call_systickDelay_def log_call_def
  init_not_entered_def


subsection \<open>The sequence of tsl2561SetTiming over any layer\<close>

text \<open>
  The control flow of \<open>tsl2561SetTiming\<close> over an arbitrary layer below the
  driver, with \<open>(e1, st1)\<close>, \<open>(e2, st2)\<close> and \<open>(e3, st3)\<close> the results of
  enable, the write to the timing register and disable: the function returns the
  result of the first step that returns an error, and the two static variables
  change only after a write that returned \<open>TSL2561_ERROR_OK\<close>.
\<close>

lemma SetTiming_sequence:
  "let st0 = init_if_needed (tsl2561Init c ops) (log_call (CALL_SetTiming integration gain) st);
       (e1, st1) = tsl2561Enable c ops st0;
       (e2, st2) = call_Write8 ops (ucast (TSL2561_COMMAND_BIT c OR TSL2561_REGISTER_TIMING c))
                     (integration OR gain) st1;
       (e3, st3) = tsl2561Disable c ops
                     (st2\<lparr>tsl2561IntegrationTime := integration, tsl2561Gain := gain\<rparr>)
   in tsl2561SetTiming c ops integration gain st =
        (if e1 \<noteq> TSL2561_ERROR_OK then (e1, st1)
         else if e2 \<noteq> TSL2561_ERROR_OK then (e2, st2)
         else (e3, st3))
      \<and> tsl2561IntegrationTime st1 = tsl2561IntegrationTime st \<and> tsl2561Gain st1 = tsl2561Gain st
      \<and> tsl2561IntegrationTime st2 = tsl2561IntegrationTime st \<and> tsl2561Gain st2 = tsl2561Gain st
      \<and> tsl2561IntegrationTime st3 = integration \<and> tsl2561Gain st3 = gain
      \<and> (tsl2561Initialised st \<longrightarrow>
           calls st1 = calls st @
             [CALL_SetTiming integration gain, CALL_Enable,
              CALL_Write8 (ucast (TSL2561_COMMAND_BIT c OR TSL2561_REGISTER_CONTROL c))
                (TSL2561_CONTROL_POWERON c)]
           \<and> calls st2 = calls st1 @
             [CALL_Write8 (ucast (TSL2561_COMMAND_BIT c OR TSL2561_REGISTER_TIMING c))
                (integration OR gain)]
           \<and> calls st3 = calls st2 @
             [CALL_Disable,
              CALL_Write8 (ucast (TSL2561_COMMAND_BIT c OR TSL2561_REGISTER_CONTROL c))
                (TSL2561_CONTROL_POWEROFF c)])"
proof -
  let ?s0 = "init_if_needed (tsl2561Init c ops) (log_call (CALL_SetTiming integration gain) st)"
  obtain e1 s1 where en: "tsl2561Enable c ops ?s0 = (e1, s1)"
    by (cases "tsl2561Enable c ops ?s0")
  obtain e2 s2 where
    wr: "call_Write8 ops (ucast (TSL2561_COMMAND_BIT c OR TSL2561_REGISTER_TIMING c))
           (integration OR gain) s1 = (e2, s2)"
    by (cases "call_Write8 ops (ucast (TSL2561_COMMAND_BIT c OR TSL2561_REGISTER_TIMING c))
           (integration OR gain) s1")
  obtain e3 s3 where
    dis: "tsl2561Disable c ops
           (s2\<lparr>tsl2561IntegrationTime := integration, tsl2561Gain := gain\<rparr>) = (e3, s3)"
    by (cases "tsl2561Disable c ops
           (s2\<lparr>tsl2561IntegrationTime := integration, tsl2561Gain := gain\<rparr>)")
  have res: "tsl2561SetTiming c ops integration gain st =
        (if e1 \<noteq> TSL2561_ERROR_OK then (e1, s1)
         else if e2 \<noteq> TSL2561_ERROR_OK then (e2, s2)
         else (e3, s3))"
    unfolding tsl2561SetTiming_def
    by (rule SetTiming_from_steps) (use en wr dis in \<open>simp_all add: tsl2561Enable_def tsl2561Disable_def\<close>)
  have f0: "tsl2561IntegrationTime ?s0 = tsl2561IntegrationTime st \<and> tsl2561Gain ?s0 = tsl2561Gain st"
    using init_if_needed_fields [of "tsl2561Init c ops", OF tsl2561Init_fields] by simp
  have f1: "tsl2561IntegrationTime s1 = tsl2561IntegrationTime st \<and> tsl2561Gain s1 = tsl2561Gain st"
    using tsl2561Enable_fields [of c ops ?s0] f0 by (simp add: en)
  have f2: "tsl2561IntegrationTime s2 = tsl2561IntegrationTime st \<and> tsl2561Gain s2 = tsl2561Gain st"
    using snd_eqD [OF wr] f1 by simp
  have f3: "tsl2561IntegrationTime s3 = integration \<and> tsl2561Gain s3 = gain"
    using tsl2561Disable_fields [of c ops "s2\<lparr>tsl2561IntegrationTime := integration, tsl2561Gain := gain\<rparr>"]
    by (simp add: dis)
  have tr: "calls s1 = calls st @
             [CALL_SetTiming integration gain, CALL_Enable,
              CALL_Write8 (ucast (TSL2561_COMMAND_BIT c OR TSL2561_REGISTER_CONTROL c))
                (TSL2561_CONTROL_POWERON c)]
           \<and> calls s2 = calls s1 @
             [CALL_Write8 (ucast (TSL2561_COMMAND_BIT c OR TSL2561_REGISTER_TIMING c))
                (integration OR gain)]
           \<and> calls s3 = calls s2 @
             [CALL_Disable,
              CALL_Write8 (ucast (TSL2561_COMMAND_BIT c OR TSL2561_REGISTER_CONTROL c))
                (TSL2561_CONTROL_POWEROFF c)]" if i: "tsl2561Initialised st"
  proof -
    have i0: "tsl2561Initialised (log_call (CALL_SetTiming integration gain) st)" using i by simp
    have s0: "?s0 = log_call (CALL_SetTiming integration gain) st" using i0 by simp
    have c1: "calls s1 = calls ?s0 @ [CALL_Enable,
              CALL_Write8 (ucast (TSL2561_COMMAND_BIT c OR TSL2561_REGISTER_CONTROL c))
                (TSL2561_CONTROL_POWERON c)] \<and> tsl2561Initialised s1"
      using Enable_initialised_calls [of ?s0 "tsl2561Init c ops" c ops] i0 s0 en
      by (simp add: tsl2561Enable_def)
    have c2: "calls s2 = calls s1 @
             [CALL_Write8 (ucast (TSL2561_COMMAND_BIT c OR TSL2561_REGISTER_TIMING c))
                (integration OR gain)] \<and> tsl2561Initialised s2"
      using snd_eqD [OF wr] c1 by simp
    have c3: "calls s3 = calls s2 @
             [CALL_Disable,
              CALL_Write8 (ucast (TSL2561_COMMAND_BIT c OR TSL2561_REGISTER_CONTROL c))
                (TSL2561_CONTROL_POWEROFF c)]"
      using Disable_initialised_calls [of "s2\<lparr>tsl2561IntegrationTime := integration, tsl2561Gain := gain\<rparr>"
          "tsl2561Init c ops" c ops] c2 dis
      by (simp add: tsl2561Disable_def)
    show ?thesis using c1 c2 c3 s0 by simp
  qed
  show ?thesis
    using res f1 f2 f3 tr by (simp add: Let_def en wr dis)
qed

subsection \<open>The sequence of tsl2561GetLuminosity over any layer\<close>

text \<open>
  The control flow of \<open>tsl2561GetLuminosity\<close> over an arbitrary layer, with
  \<open>(e1, st1)\<close>, \<open>(e2, v0, st3)\<close>, \<open>(e3, v1, st4)\<close> and \<open>(e4, st5)\<close> the results of
  enable, the two reads and disable: the function returns the result of the first
  step that returns an error, and the caller's two cells hold what the reads
  stored as soon as the reads are made.
\<close>

lemma GetLuminosity_sequence:
  "let st0 = init_if_needed (tsl2561Init c ops) (log_call CALL_GetLuminosity st);
       (e1, st1) = tsl2561Enable c ops st0;
       st2 = (if tsl2561IntegrationTime st1 = TSL2561_INTEGRATIONTIME_13MS c
                then call_systickDelay ops 14 st1
              else if tsl2561IntegrationTime st1 = TSL2561_INTEGRATIONTIME_101MS c
                then call_systickDelay ops 102 st1
              else call_systickDelay ops 400 st1);
       (e2, v0, st3) = call_Read16 ops
           (ucast (TSL2561_COMMAND_BIT c OR TSL2561_WORD_BIT c OR TSL2561_REGISTER_CHAN0_LOW c))
           broadband st2;
       (e3, v1, st4) = call_Read16 ops
           (ucast (TSL2561_COMMAND_BIT c OR TSL2561_WORD_BIT c OR TSL2561_REGISTER_CHAN1_LOW c))
           ir st3;
       (e4, st5) = tsl2561Disable c ops st4
   in tsl2561GetLuminosity c ops broadband ir st =
        (if e1 \<noteq> TSL2561_ERROR_OK then (e1, (broadband, ir), st1)
         else if e2 \<noteq> TSL2561_ERROR_OK then (e2, (v0, ir), st3)
         else if e3 \<noteq> TSL2561_ERROR_OK then (e3, (v0, v1), st4)
         else (e4, (v0, v1), st5))
      \<and> (tsl2561Initialised st \<longrightarrow>
           calls st5 = calls st @
             [CALL_GetLuminosity, CALL_Enable,
              CALL_Write8 (ucast (TSL2561_COMMAND_BIT c OR TSL2561_REGISTER_CONTROL c))
                (TSL2561_CONTROL_POWERON c),
              CALL_systickDelay
                (if tsl2561IntegrationTime st = TSL2561_INTEGRATIONTIME_13MS c then 14
                 else if tsl2561IntegrationTime st = TSL2561_INTEGRATIONTIME_101MS c then 102
                 else 400),
              CALL_Read16 (ucast (TSL2561_COMMAND_BIT c OR TSL2561_WORD_BIT c OR TSL2561_REGISTER_CHAN0_LOW c)),
              CALL_Read16 (ucast (TSL2561_COMMAND_BIT c OR TSL2561_WORD_BIT c OR TSL2561_REGISTER_CHAN1_LOW c)),
              CALL_Disable,
              CALL_Write8 (ucast (TSL2561_COMMAND_BIT c OR TSL2561_REGISTER_CONTROL c))
                (TSL2561_CONTROL_POWEROFF c)]
           \<and> count_list (drop (length (calls st)) (calls st5)) CALL_Disable = 1)"
proof -
  let ?s0 = "init_if_needed (tsl2561Init c ops) (log_call CALL_GetLuminosity st)"
  let ?ch0 = "ucast (TSL2561_COMMAND_BIT c OR TSL2561_WORD_BIT c OR TSL2561_REGISTER_CHAN0_LOW c) :: u8"
  let ?ch1 = "ucast (TSL2561_COMMAND_BIT c OR TSL2561_WORD_BIT c OR TSL2561_REGISTER_CHAN1_LOW c) :: u8"
  let ?ctl = "ucast (TSL2561_COMMAND_BIT c OR TSL2561_REGISTER_CONTROL c) :: u8"
  obtain e1 s1 where en: "tsl2561Enable c ops ?s0 = (e1, s1)"
    by (cases "tsl2561Enable c ops ?s0")
  have f1: "tsl2561IntegrationTime s1 = tsl2561IntegrationTime st"
    using tsl2561Enable_fields [of c ops ?s0]
      init_if_needed_fields [of "tsl2561Init c ops", OF tsl2561Init_fields]
    by (simp add: en)
  define ms :: nat where
    "ms = (if tsl2561IntegrationTime st = TSL2561_INTEGRATIONTIME_13MS c then 14
           else if tsl2561IntegrationTime st = TSL2561_INTEGRATIONTIME_101MS c then 102 else 400)"
  define s2 where
    "s2 = (if tsl2561IntegrationTime s1 = TSL2561_INTEGRATIONTIME_13MS c
             then call_systickDelay ops 14 s1
           else if tsl2561IntegrationTime s1 = TSL2561_INTEGRATIONTIME_101MS c
             then call_systickDelay ops 102 s1
           else call_systickDelay ops 400 s1)"
  have s2_ms: "s2 = call_systickDelay ops ms s1" by (simp add: s2_def ms_def f1)
  obtain e2 v0 s3 where r0: "call_Read16 ops ?ch0 broadband s2 = (e2, v0, s3)"
    by (cases "call_Read16 ops ?ch0 broadband s2")
  obtain e3 v1 s4 where r1: "call_Read16 ops ?ch1 ir s3 = (e3, v1, s4)"
    by (cases "call_Read16 ops ?ch1 ir s3")
  obtain e4 s5 where dis: "tsl2561Disable c ops s4 = (e4, s5)"
    by (cases "tsl2561Disable c ops s4")
  have res: "tsl2561GetLuminosity c ops broadband ir st =
        (if e1 \<noteq> TSL2561_ERROR_OK then (e1, (broadband, ir), s1)
         else if e2 \<noteq> TSL2561_ERROR_OK then (e2, (v0, ir), s3)
         else if e3 \<noteq> TSL2561_ERROR_OK then (e3, (v0, v1), s4)
         else (e4, (v0, v1), s5))"
    unfolding tsl2561GetLuminosity_def
    by (rule GetLuminosity_from_steps [where ?s2.0 = s2])
       (use en r0 r1 dis in \<open>simp_all add: tsl2561Enable_def tsl2561Disable_def s2_def\<close>)
  have tr: "calls s5 = calls st @
             [CALL_GetLuminosity, CALL_Enable, CALL_Write8 ?ctl (TSL2561_CONTROL_POWERON c),
              CALL_systickDelay ms, CALL_Read16 ?ch0, CALL_Read16 ?ch1,
              CALL_Disable, CALL_Write8 ?ctl (TSL2561_CONTROL_POWEROFF c)]"
    if i: "tsl2561Initialised st"
  proof -
    have i0: "tsl2561Initialised (log_call CALL_GetLuminosity st)" using i by simp
    have s0: "?s0 = log_call CALL_GetLuminosity st" using i0 by simp
    have c1: "calls s1 = calls ?s0 @ [CALL_Enable, CALL_Write8 ?ctl (TSL2561_CONTROL_POWERON c)]
                \<and> tsl2561Initialised s1"
      using Enable_initialised_calls [of ?s0 "tsl2561Init c ops" c ops] i0 s0 en
      by (simp add: tsl2561Enable_def)
    have c2: "calls s2 = calls s1 @ [CALL_systickDelay ms] \<and> tsl2561Initialised s2"
      using c1 by (simp add: s2_ms)
    have c3: "calls s3 = calls s2 @ [CALL_Read16 ?ch0] \<and> tsl2561Initialised s3"
      using snd_snd_eqD [OF r0] c2 by simp
    have c4: "calls s4 = calls s3 @ [CALL_Read16 ?ch1] \<and> tsl2561Initialised s4"
      using snd_snd_eqD [OF r1] c3 by simp
    have c5: "calls s5 = calls s4 @ [CALL_Disable, CALL_Write8 ?ctl (TSL2561_CONTROL_POWEROFF c)]"
      using Disable_initialised_calls [of s4 "tsl2561Init c ops" c ops] c4 dis
      by (simp add: tsl2561Disable_def)
    show ?thesis using c1 c2 c3 c4 c5 s0 by simp
  qed
  have cnt: "count_list (drop (length (calls st)) (calls s5)) CALL_Disable = 1"
    if i: "tsl2561Initialised st"
    by (simp add: tr [OF i])
  show ?thesis
    using res tr cnt by (simp add: Let_def en r0 r1 dis s2_def [symmetric] ms_def)
qed

subsection \<open>Lazy initialisation that fails\<close>

lemma Init_fails:
  assumes "fst (bus_i2cInit ops (bus st)) = False"
  shows "tsl2561Init c ops st =
           (TSL2561_ERROR_I2CINIT, snd (call_i2cInit ops (log_call CALL_Init st)))"
proof -
  obtain ok b where i: "bus_i2cInit ops (bus st) = (ok, b)"
    by (cases "bus_i2cInit ops (bus st)")
  then have "ok = False" using assms by simp
  then show ?thesis
    using i by (simp add: tsl2561Init_def call_i2cInit_def Let_def)
qed

lemma init_if_needed_fails:
  assumes "\<not> tsl2561Initialised st" "\<forall>b. fst (bus_i2cInit ops b) = False"
  shows "\<not> tsl2561Initialised (init_if_needed (tsl2561Init c ops) st)
       \<and> calls (init_if_needed (tsl2561Init c ops) st) = calls st @ [CALL_Init, CALL_i2cInit]
       \<and> bus (init_if_needed (tsl2561Init c ops) st) = snd (bus_i2cInit ops (bus st))"
  using assms
  by (simp add: init_if_needed_def Init_fails) (simp add: call_i2cInit_def Let_def split: prod.splits)

lemma Enable_init_fails:
  assumes "\<not> tsl2561Initialised st" "\<forall>b. fst (bus_i2cInit ops b) = False"
  shows "\<not> tsl2561Initialised (snd (tsl2561Enable c ops st))
       \<and> calls (snd (tsl2561Enable c ops st)) = calls st @
           [CALL_Enable, CALL_Init, CALL_i2cInit,
            CALL_Write8 (ucast (TSL2561_COMMAND_BIT c OR TSL2561_REGISTER_CONTROL c))
              (TSL2561_CONTROL_POWERON c)]
       \<and> fst (tsl2561Enable c ops st) =
           fst (bus_Write8 ops (ucast (TSL2561_COMMAND_BIT c OR TSL2561_REGISTER_CONTROL c))
                  (TSL2561_CONTROL_POWERON c) (snd (bus_i2cInit ops (bus st))))"
  using init_if_needed_fails [of "log_call CALL_Enable st" ops c] assms
  by (simp add: tsl2561Enable_def tsl2561Enable_from_def Let_def)
     (simp add: call_Write8_def Let_def split: prod.splits)

lemma Disable_init_fails:
  assumes "\<not> tsl2561Initialised st" "\<forall>b. fst (bus_i2cInit ops b) = False"
  shows "\<not> tsl2561Initialised (snd (tsl2561Disable c ops st))
       \<and> calls (snd (tsl2561Disable c ops st)) = calls st @
           [CALL_Disable, CALL_Init, CALL_i2cInit,
            CALL_Write8 (ucast (TSL2561_COMMAND_BIT c OR TSL2561_REGISTER_CONTROL c))
              (TSL2561_CONTROL_POWEROFF c)]
       \<and> fst (tsl2561Disable c ops st) =
           fst (bus_Write8 ops (ucast (TSL2561_COMMAND_BIT c OR TSL2561_REGISTER_CONTROL c))
                  (TSL2561_CONTROL_POWEROFF c) (snd (bus_i2cInit ops (bus st))))"
  using init_if_needed_fails [of "log_call CALL_Disable st" ops c] assms
  by (simp add: tsl2561Disable_def tsl2561Disable_from_def Let_def)
     (simp add: call_Write8_def Let_def split: prod.splits)

lemma call_Write8_error:
  "\<forall>reg val b. fst (bus_Write8 ops reg val b) \<noteq> E \<Longrightarrow> fst (call_Write8 ops reg val st) \<noteq> E"
  by (simp add: call_Write8_def Let_def split: prod.splits) (metis fst_conv)

lemma call_Read16_error:
  "\<forall>reg old b. fst (fst (bus_Read16 ops reg old b)) \<noteq> E \<Longrightarrow> fst (call_Read16 ops reg old st) \<noteq> E"
  by (simp add: call_Read16_def Let_def split: prod.splits) (metis fst_conv)

lemma SetTiming_error:
  assumes "\<forall>reg val b. fst (bus_Write8 ops reg val b) \<noteq> E"
  shows "fst (tsl2561SetTiming_from init c ops integration gain st) \<noteq> E"
proof -
  let ?s0 = "init_if_needed init (log_call (CALL_SetTiming integration gain) st)"
  obtain e1 s1 where en: "tsl2561Enable_from init c ops ?s0 = (e1, s1)"
    by (cases "tsl2561Enable_from init c ops ?s0")
  obtain e2 s2 where
    wr: "call_Write8 ops (ucast (TSL2561_COMMAND_BIT c OR TSL2561_REGISTER_TIMING c))
           (integration OR gain) s1 = (e2, s2)"
    by (cases "call_Write8 ops (ucast (TSL2561_COMMAND_BIT c OR TSL2561_REGISTER_TIMING c))
           (integration OR gain) s1")
  obtain e3 s3 where
    dis: "tsl2561Disable_from init c ops
           (s2\<lparr>tsl2561IntegrationTime := integration, tsl2561Gain := gain\<rparr>) = (e3, s3)"
    by (cases "tsl2561Disable_from init c ops
           (s2\<lparr>tsl2561IntegrationTime := integration, tsl2561Gain := gain\<rparr>)")
  have "e1 \<noteq> E"
    using call_Write8_error [OF assms] en by (simp add: tsl2561Enable_from_def Let_def) (metis fst_conv)
  moreover have "e2 \<noteq> E"
    using call_Write8_error [OF assms] wr by (metis fst_conv)
  moreover have "e3 \<noteq> E"
    using call_Write8_error [OF assms] dis by (simp add: tsl2561Disable_from_def Let_def) (metis fst_conv)
  ultimately show ?thesis
    unfolding SetTiming_from_steps [OF en wr dis] by simp
qed


lemma GetLuminosity_error:
  assumes w: "\<forall>reg val b. fst (bus_Write8 ops reg val b) \<noteq> E"
    and r: "\<forall>reg old b. fst (fst (bus_Read16 ops reg old b)) \<noteq> E"
  shows "fst (tsl2561GetLuminosity_from init c ops broadband ir st) \<noteq> E"
proof -
  let ?s0 = "init_if_needed init (log_call CALL_GetLuminosity st)"
  let ?ch0 = "ucast (TSL2561_COMMAND_BIT c OR TSL2561_WORD_BIT c OR TSL2561_REGISTER_CHAN0_LOW c) :: u8"
  let ?ch1 = "ucast (TSL2561_COMMAND_BIT c OR TSL2561_WORD_BIT c OR TSL2561_REGISTER_CHAN1_LOW c) :: u8"
  obtain e1 s1 where en: "tsl2561Enable_from init c ops ?s0 = (e1, s1)"
    by (cases "tsl2561Enable_from init c ops ?s0")
  define s2 where
    "s2 = (if tsl2561IntegrationTime s1 = TSL2561_INTEGRATIONTIME_13MS c
             then call_systickDelay ops 14 s1
           else if tsl2561IntegrationTime s1 = TSL2561_INTEGRATIONTIME_101MS c
             then call_systickDelay ops 102 s1
           else call_systickDelay ops 400 s1)"
  obtain e2 v0 s3 where r0: "call_Read16 ops ?ch0 broadband s2 = (e2, v0, s3)"
    by (cases "call_Read16 ops ?ch0 broadband s2")
  obtain e3 v1 s4 where r1: "call_Read16 ops ?ch1 ir s3 = (e3, v1, s4)"
    by (cases "call_Read16 ops ?ch1 ir s3")
  obtain e4 s5 where dis: "tsl2561Disable_from init c ops s4 = (e4, s5)"
    by (cases "tsl2561Disable_from init c ops s4")
  have "e1 \<noteq> E"
    using call_Write8_error [OF w] en by (simp add: tsl2561Enable_from_def Let_def) (metis fst_conv)
  moreover have "e2 \<noteq> E"
    using call_Read16_error [OF r] r0 by (metis fst_conv)
  moreover have "e3 \<noteq> E"
    using call_Read16_error [OF r] r1 by (metis fst_conv)
  moreover have "e4 \<noteq> E"
    using call_Write8_error [OF w] dis by (simp add: tsl2561Disable_from_def Let_def) (metis fst_conv)
  ultimately show ?thesis
    unfolding GetLuminosity_from_steps [OF en s2_def r0 r1 dis] by simp
qed

lemma SetTiming_init_fails:
  assumes ni: "\<not> tsl2561Initialised st" and f: "\<forall>b. fst (bus_i2cInit ops b) = False"
  shows "\<not> tsl2561Initialised (snd (tsl2561SetTiming c ops integration gain st))
       \<and> take 7 (drop (length (calls st)) (calls (snd (tsl2561SetTiming c ops integration gain st)))) =
           [CALL_SetTiming integration gain, CALL_Init, CALL_i2cInit,
            CALL_Enable, CALL_Init, CALL_i2cInit,
            CALL_Write8 (ucast (TSL2561_COMMAND_BIT c OR TSL2561_REGISTER_CONTROL c))
              (TSL2561_CONTROL_POWERON c)]"
proof -
  let ?s0 = "init_if_needed (tsl2561Init c ops) (log_call (CALL_SetTiming integration gain) st)"
  let ?upd = "\<lambda>s. s\<lparr>tsl2561IntegrationTime := integration, tsl2561Gain := gain\<rparr>"
  obtain e1 s1 where en: "tsl2561Enable c ops ?s0 = (e1, s1)"
    by (cases "tsl2561Enable c ops ?s0")
  obtain e2 s2 where
    wr: "call_Write8 ops (ucast (TSL2561_COMMAND_BIT c OR TSL2561_REGISTER_TIMING c))
           (integration OR gain) s1 = (e2, s2)"
    by (cases "call_Write8 ops (ucast (TSL2561_COMMAND_BIT c OR TSL2561_REGISTER_TIMING c))
           (integration OR gain) s1")
  obtain e3 s3 where dis: "tsl2561Disable c ops (?upd s2) = (e3, s3)"
    by (cases "tsl2561Disable c ops (?upd s2)")
  have res: "tsl2561SetTiming c ops integration gain st =
        (if e1 \<noteq> TSL2561_ERROR_OK then (e1, s1)
         else if e2 \<noteq> TSL2561_ERROR_OK then (e2, s2)
         else (e3, s3))"
    unfolding tsl2561SetTiming_def
    by (rule SetTiming_from_steps) (use en wr dis in \<open>simp_all add: tsl2561Enable_def tsl2561Disable_def\<close>)
  have c0: "\<not> tsl2561Initialised ?s0
            \<and> calls ?s0 = calls st @ [CALL_SetTiming integration gain, CALL_Init, CALL_i2cInit]"
    using init_if_needed_fails [of "log_call (CALL_SetTiming integration gain) st" ops c] ni f
    by simp
  have c1: "\<not> tsl2561Initialised s1
            \<and> calls s1 = calls ?s0 @ [CALL_Enable, CALL_Init, CALL_i2cInit,
                CALL_Write8 (ucast (TSL2561_COMMAND_BIT c OR TSL2561_REGISTER_CONTROL c))
                  (TSL2561_CONTROL_POWERON c)]"
    using Enable_init_fails [of ?s0 ops c] c0 f by (simp add: en)
  have c2: "\<not> tsl2561Initialised s2 \<and> (\<exists>xs. calls s2 = calls s1 @ xs)"
    using snd_eqD [OF wr] c1 by simp
  have c3: "\<not> tsl2561Initialised s3 \<and> (\<exists>xs. calls s3 = calls s1 @ xs)"
    using Disable_init_fails [of "?upd s2" ops c] c2 f by (auto simp add: dis)
  show ?thesis
    unfolding res using c0 c1 c2 c3 by auto
qed

lemma GetLuminosity_init_fails:
  assumes ni: "\<not> tsl2561Initialised st" and f: "\<forall>b. fst (bus_i2cInit ops b) = False"
  shows "\<not> tsl2561Initialised (snd (snd (tsl2561GetLuminosity c ops broadband ir st)))
       \<and> take 7 (drop (length (calls st))
                  (calls (snd (snd (tsl2561GetLuminosity c ops broadband ir st))))) =
           [CALL_GetLuminosity, CALL_Init, CALL_i2cInit,
            CALL_Enable, CALL_Init, CALL_i2cInit,
            CALL_Write8 (ucast (TSL2561_COMMAND_BIT c OR TSL2561_REGISTER_CONTROL c))
              (TSL2561_CONTROL_POWERON c)]"
proof -
  let ?s0 = "init_if_needed (tsl2561Init c ops) (log_call CALL_GetLuminosity st)"
  let ?ch0 = "ucast (TSL2561_COMMAND_BIT c OR TSL2561_WORD_BIT c OR TSL2561_REGISTER_CHAN0_LOW c) :: u8"
  let ?ch1 = "ucast (TSL2561_COMMAND_BIT c OR TSL2561_WORD_BIT c OR TSL2561_REGISTER_CHAN1_LOW c) :: u8"
  obtain e1 s1 where en: "tsl2561Enable c ops ?s0 = (e1, s1)"
    by (cases "tsl2561Enable c ops ?s0")
  define s2 where
    "s2 = (if tsl2561IntegrationTime s1 = TSL2561_INTEGRATIONTIME_13MS c
             then call_systickDelay ops 14 s1
           else if tsl2561IntegrationTime s1 = TSL2561_INTEGRATIONTIME_101MS c
             then call_systickDelay ops 102 s1
           else call_systickDelay ops 400 s1)"
  obtain e2 v0 s3 where r0: "call_Read16 ops ?ch0 broadband s2 = (e2, v0, s3)"
    by (cases "call_Read16 ops ?ch0 broadband s2")
  obtain e3 v1 s4 where r1: "call_Read16 ops ?ch1 ir s3 = (e3, v1, s4)"
    by (cases "call_Read16 ops ?ch1 ir s3")
  obtain e4 s5 where dis: "tsl2561Disable c ops s4 = (e4, s5)"
    by (cases "tsl2561Disable c ops s4")
  have res: "tsl2561GetLuminosity c ops broadband ir st =
        (if e1 \<noteq> TSL2561_ERROR_OK then (e1, (broadband, ir), s1)
         else if e2 \<noteq> TSL2561_ERROR_OK then (e2, (v0, ir), s3)
         else if e3 \<noteq> TSL2561_ERROR_OK then (e3, (v0, v1), s4)
         else (e4, (v0, v1), s5))"
    unfolding tsl2561GetLuminosity_def
    by (rule GetLuminosity_from_steps [where ?s2.0 = s2])
       (use en r0 r1 dis in \<open>simp_all add: tsl2561Enable_def tsl2561Disable_def s2_def\<close>)
  have c0: "\<not> tsl2561Initialised ?s0
            \<and> calls ?s0 = calls st @ [CALL_GetLuminosity, CALL_Init, CALL_i2cInit]"
    using init_if_needed_fails [of "log_call CALL_GetLuminosity st" ops c] ni f
    by simp
  have c1: "\<not> tsl2561Initialised s1
            \<and> calls s1 = calls ?s0 @ [CALL_Enable, CALL_Init, CALL_i2cInit,
                CALL_Write8 (ucast (TSL2561_COMMAND_BIT c OR TSL2561_REGISTER_CONTROL c))
                  (TSL2561_CONTROL_POWERON c)]"
    using Enable_init_fails [of ?s0 ops c] c0 f by (simp add: en)
  have c2: "\<not> tsl2561Initialised s2 \<and> (\<exists>xs. calls s2 = calls s1 @ xs)"
    using c1 by (simp add: s2_def)
  have c3: "\<not> tsl2561Initialised s3 \<and> (\<exists>xs. calls s3 = calls s1 @ xs)"
    using snd_snd_eqD [OF r0] c2 by auto
  have c4: "\<not> tsl2561Initialised s4 \<and> (\<exists>xs. calls s4 = calls s1 @ xs)"
    using snd_snd_eqD [OF r1] c3 by auto
  have c5: "\<not> tsl2561Initialised s5 \<and> (\<exists>xs. calls s5 = calls s1 @ xs)"
    using Disable_init_fails [of s4 ops c] c4 f by (auto simp add: dis)
  show ?thesis
    unfolding res using c0 c1 c3 c4 c5 by auto
qed



text \<open>
  C9. When the driver is not initialised and \<open>i2cInit\<close> fails, \<open>tsl2561Enable\<close>,
  \<open>tsl2561Disable\<close>, \<open>tsl2561SetTiming\<close> and \<open>tsl2561GetLuminosity\<close> call
  \<open>tsl2561Init\<close> and drop its result: the flag stays false, the bus write that
  follows is issued all the same (and inside \<open>tsl2561SetTiming\<close> and
  \<open>tsl2561GetLuminosity\<close> the enable step calls \<open>tsl2561Init\<close> once more), and the
  error returned is that of the function's own bus steps, never
  \<open>TSL2561_ERROR_I2CINIT\<close> unless a bus step itself returns it.
\<close>

theorem lazy_init_failure_discarded:
  assumes "\<not> tsl2561Initialised st" and "\<forall>b. fst (bus_i2cInit ops b) = False"
  shows
    "(\<not> tsl2561Initialised (snd (tsl2561Enable c ops st))
       \<and> calls (snd (tsl2561Enable c ops st)) = calls st @
           [CALL_Enable, CALL_Init, CALL_i2cInit,
            CALL_Write8 (ucast (TSL2561_COMMAND_BIT c OR TSL2561_REGISTER_CONTROL c))
              (TSL2561_CONTROL_POWERON c)]
       \<and> fst (tsl2561Enable c ops st) =
           fst (bus_Write8 ops (ucast (TSL2561_COMMAND_BIT c OR TSL2561_REGISTER_CONTROL c))
                  (TSL2561_CONTROL_POWERON c) (snd (bus_i2cInit ops (bus st)))))
     \<and> (\<not> tsl2561Initialised (snd (tsl2561Disable c ops st))
       \<and> calls (snd (tsl2561Disable c ops st)) = calls st @
           [CALL_Disable, CALL_Init, CALL_i2cInit,
            CALL_Write8 (ucast (TSL2561_COMMAND_BIT c OR TSL2561_REGISTER_CONTROL c))
              (TSL2561_CONTROL_POWEROFF c)]
       \<and> fst (tsl2561Disable c ops st) =
           fst (bus_Write8 ops (ucast (TSL2561_COMMAND_BIT c OR TSL2561_REGISTER_CONTROL c))
                  (TSL2561_CONTROL_POWEROFF c) (snd (bus_i2cInit ops (bus st)))))
     \<and> (\<not> tsl2561Initialised (snd (tsl2561SetTiming c ops integration gain st))
       \<and> take 7 (drop (length (calls st))
                  (calls (snd (tsl2561SetTiming c ops integration gain st)))) =
           [CALL_SetTiming integration gain, CALL_Init, CALL_i2cInit,
            CALL_Enable, CALL_Init, CALL_i2cInit,
            CALL_Write8 (ucast (TSL2561_COMMAND_BIT c OR TSL2561_REGISTER_CONTROL c))
              (TSL2561_CONTROL_POWERON c)]
       \<and> ((\<forall>reg val b. fst (bus_Write8 ops reg val b) \<noteq> TSL2561_ERROR_I2CINIT) \<longrightarrow>
            fst (tsl2561SetTiming c ops integration gain st) \<noteq> TSL2561_ERROR_I2CINIT))
     \<and> (\<not> tsl2561Initialised (snd (snd (tsl2561GetLuminosity c ops broadband ir st)))
       \<and> take 7 (drop (length (calls st))
                  (calls (snd (snd (tsl2561GetLuminosity c ops broadband ir st))))) =
           [CALL_GetLuminosity, CALL_Init, CALL_i2cInit,
            CALL_Enable, CALL_Init, CALL_i2cInit,
            CALL_Write8 (ucast (TSL2561_COMMAND_BIT c OR TSL2561_REGISTER_CONTROL c))
              (TSL2561_CONTROL_POWERON c)]
       \<and> ((\<forall>reg val b. fst (bus_Write8 ops reg val b) \<noteq> TSL2561_ERROR_I2CINIT)
            \<and> (\<forall>reg old b. fst (fst (bus_Read16 ops reg old b)) \<noteq> TSL2561_ERROR_I2CINIT) \<longrightarrow>
            fst (tsl2561GetLuminosity c ops broadband ir st) \<noteq> TSL2561_ERROR_I2CINIT))"
proof (intro conjI)
  show "(\<forall>reg val b. fst (bus_Write8 ops reg val b) \<noteq> TSL2561_ERROR_I2CINIT) \<longrightarrow>
            fst (tsl2561SetTiming c ops integration gain st) \<noteq> TSL2561_ERROR_I2CINIT"
    unfolding tsl2561SetTiming_def by (intro impI SetTiming_error)
  show "(\<forall>reg val b. fst (bus_Write8 ops reg val b) \<noteq> TSL2561_ERROR_I2CINIT)
            \<and> (\<forall>reg old b. fst (fst (bus_Read16 ops reg old b)) \<noteq> TSL2561_ERROR_I2CINIT) \<longrightarrow>
            fst (tsl2561GetLuminosity c ops broadband ir st) \<noteq> TSL2561_ERROR_I2CINIT"
    unfolding tsl2561GetLuminosity_def by (intro impI GetLuminosity_error) simp_all
qed (use Enable_init_fails [OF assms, of c] Disable_init_fails [OF assms, of c]
      SetTiming_init_fails [OF assms, of c integration gain]
      GetLuminosity_init_fails [OF assms, of c broadband ir] in simp_all)

theorem lazy_init_failure_discarded_witness:
  "tsl2561Enable tsl2561_T_package (simulated_bus False) (sim_state False []) =
     (TSL2561_ERROR_OK,
      \<lparr> tsl2561Initialised = False, tsl2561IntegrationTime = 2, tsl2561Gain = 0, bus = [],
        calls = [CALL_Enable, CALL_Init, CALL_i2cInit, CALL_Write8 0x80 3] \<rparr>)
   \<and> tsl2561SetTiming tsl2561_T_package (simulated_bus False) 1 16 (sim_state False []) =
     (TSL2561_ERROR_OK,
      \<lparr> tsl2561Initialised = False, tsl2561IntegrationTime = 1, tsl2561Gain = 16, bus = [],
        calls = [CALL_SetTiming 1 16, CALL_Init, CALL_i2cInit,
                 CALL_Enable, CALL_Init, CALL_i2cInit, CALL_Write8 0x80 3,
                 CALL_Write8 0x81 0x11,
                 CALL_Disable, CALL_Init, CALL_i2cInit, CALL_Write8 0x80 0] \<rparr>)"
proof -
  have h1: "\<not> tsl2561Initialised (sim_state False [])" by (simp add: sim_state_def)
  have h2: "\<forall>b. fst (bus_i2cInit (simulated_bus False) b) = False" by (simp add: simulated_bus_def)
  show ?thesis
    using lazy_init_failure_discarded [OF h1 h2, of tsl2561_T_package 1 16 0 0]
    by (simp add: driver_defs simulated_bus_def sim_state_def tsl2561_T_package_def Let_def)
qed

section \<open>The driver over the bus layer of this file\<close>

text \<open>
  From here on the layer below the driver is \<open>tsl2561_i2c_bus\<close>: the
  \<open>tsl2561Write8\<close> and \<open>tsl2561Read16\<close> of this file over the I2C buffers and the
  bus engine, whose transfers succeed or fail as \<open>engine_outcomes\<close> says.
\<close>

subsection \<open>Frame lemmas of the bus layer\<close>


lemma call_Read16_ok:
  "\<forall>reg old b. fst (fst (bus_Read16 ops reg old b)) = TSL2561_ERROR_OK \<Longrightarrow>
     fst (call_Read16 ops reg old st) = TSL2561_ERROR_OK"
  by (simp add: call_Read16_def Let_def split: prod.splits) (metis fst_conv)



lemma clear_buffers_frame [simp]:
  "I2CSlaveBuffer (clear_buffers c s) = I2CSlaveBuffer s"
  "i2cInit_outcomes (clear_buffers c s) = i2cInit_outcomes s"
  "i2cInit_calls (clear_buffers c s) = i2cInit_calls s"
  by (simp_all add: clear_buffers_def split: prod.splits)

lemma tsl2561Write8_frame [simp]:
  "fst (tsl2561Write8 c reg val s) = TSL2561_ERROR_OK"
  "engine_calls (snd (tsl2561Write8 c reg val s)) = engine_calls s + 1"
  "engine_outcomes (snd (tsl2561Write8 c reg val s)) = engine_outcomes s"
  "i2cInit_outcomes (snd (tsl2561Write8 c reg val s)) = i2cInit_outcomes s"
  "i2cInit_calls (snd (tsl2561Write8 c reg val s)) = i2cInit_calls s"
  "length (I2CSlaveBuffer (snd (tsl2561Write8 c reg val s))) = length (I2CSlaveBuffer s)"
  by (simp_all add: tsl2561Write8_def Let_def i2cEngine_def split: prod.splits)

lemma tsl2561Read16_frame [simp]:
  "fst (fst (tsl2561Read16 c reg s)) = TSL2561_ERROR_OK"
  "engine_calls (snd (tsl2561Read16 c reg s)) = engine_calls s + 1"
  "engine_outcomes (snd (tsl2561Read16 c reg s)) = engine_outcomes s"
  "i2cInit_outcomes (snd (tsl2561Read16 c reg s)) = i2cInit_outcomes s"
  "i2cInit_calls (snd (tsl2561Read16 c reg s)) = i2cInit_calls s"
  "length (I2CSlaveBuffer (snd (tsl2561Read16 c reg s))) = length (I2CSlaveBuffer s)"
  by (simp_all add: tsl2561Read16_def Let_def i2cEngine_def split: prod.splits)


lemma systickDelay_frame [simp]:
  "engine_calls (systickDelay ms s) = engine_calls s"
  "engine_outcomes (systickDelay ms s) = engine_outcomes s"
  "i2cInit_outcomes (systickDelay ms s) = i2cInit_outcomes s"
  "i2cInit_calls (systickDelay ms s) = i2cInit_calls s"
  "I2CSlaveBuffer (systickDelay ms s) = I2CSlaveBuffer s"
  by (simp_all add: systickDelay_def)

lemma i2cInit_frame [simp]:
  "fst (i2cInit s) = i2cInit_outcomes s (i2cInit_calls s)"
  "engine_calls (snd (i2cInit s)) = engine_calls s"
  "engine_outcomes (snd (i2cInit s)) = engine_outcomes s"
  "i2cInit_outcomes (snd (i2cInit s)) = i2cInit_outcomes s"
  "i2cInit_calls (snd (i2cInit s)) = i2cInit_calls s + 1"
  "I2CSlaveBuffer (snd (i2cInit s)) = I2CSlaveBuffer s"
  by (simp_all add: i2cInit_def)






subsection \<open>tsl2561SetTiming\<close>







subsection \<open>tsl2561GetLuminosity\<close>











end
